theory Spec2Isabelle
  imports Complex_Main
begin

section \<open>Python and numpy operations used by \<^verbatim>\<open>scripts/l2pixc_to_rivertile.py\<close>\<close>

text \<open>
  Exceptions are values. Only the exceptions that the modelled lines can raise are
  listed; a failure inside an external collaborator is an \<open>IOError\<close> carrying the
  offending path.
\<close>

datatype error =
    KeyError string
  | AttributeError string
  | IndexError
  | ValueError
  | IOError string
  | UnicodeDecodeError
  | CalledProcessError int string

definition bindE :: "error + 'a \<Rightarrow> ('a \<Rightarrow> error + 'b) \<Rightarrow> error + 'b" where
  "bindE m f = (case m of Inl e \<Rightarrow> Inl e | Inr a \<Rightarrow> f a)"

text \<open>
  A two-dimensional numpy array: its column count and its rows. A numpy array is
  rectangular, which \<open>wf_array2\<close> states; the column count is kept apart from the rows
  so that an array of shape \<open>(0, R)\<close> keeps its \<open>R\<close>.
\<close>

datatype 'a array2 = Array2 (ncols: nat) (rows: "'a list list")

definition wf_array2 :: "'a array2 \<Rightarrow> bool" where
  "wf_array2 a = list_all (\<lambda>r. length r = ncols a) (rows a)"

definition np_shape :: "'a array2 \<Rightarrow> nat \<times> nat" where
  "np_shape a = (length (rows a), ncols a)"

text \<open>\<^verbatim>\<open>xs[::k]\<close> for a positive step: the first element, then every \<open>k\<close>-th one.\<close>

fun take_every :: "nat \<Rightarrow> 'a list \<Rightarrow> 'a list" where
  "take_every k [] = []"
| "take_every k (x # xs) = x # take_every k (drop (k - 1) xs)"

text \<open>
  \<^verbatim>\<open>xs[::k]\<close> for any integer step: a zero step raises \<open>ValueError\<close>, a negative
  step walks from the last element backwards.
\<close>

definition py_slice_step :: "int \<Rightarrow> 'a list \<Rightarrow> error + 'a list" where
  "py_slice_step k xs =
     (if k = 0 then Inl ValueError
      else if 0 < k then Inr (take_every (nat k) xs)
      else Inr (take_every (nat (- k)) (rev xs)))"

text \<open>\<^verbatim>\<open>a[::subsample_factor, :]\<close>: row decimation, every column kept.\<close>

definition decimate :: "int \<Rightarrow> 'a array2 \<Rightarrow> error + 'a array2" where
  "decimate k a = bindE (py_slice_step k (rows a)) (\<lambda>rs. Inr (Array2 (ncols a) rs))"

definition np_arange :: "nat \<Rightarrow> int list" where
  "np_arange n = map int [0..<n]"

text \<open>
  \<^verbatim>\<open>np.meshgrid(xs, ys)\<close> (the default \<open>xy\<close> indexing): two arrays of shape
  \<open>(len ys, len xs)\<close>, the first repeating \<open>xs\<close> in every row, the second holding
  \<open>ys[i]\<close> all along row \<open>i\<close>.
\<close>

definition meshgrid :: "'a list \<Rightarrow> 'b list \<Rightarrow> 'a array2 \<times> 'b array2" where
  "meshgrid xs ys =
     (Array2 (length xs) (map (\<lambda>y. xs) ys),
      Array2 (length xs) (map (\<lambda>y. replicate (length xs) y) ys))"

text \<open>\<^verbatim>\<open>a == v\<close>: the element-wise comparison.\<close>

definition mask_eq :: "'a array2 \<Rightarrow> 'a \<Rightarrow> bool array2" where
  "mask_eq a v = Array2 (ncols a) (map (map (\<lambda>x. x = v)) (rows a))"

text \<open>
  \<^verbatim>\<open>x[mask]\<close> with a two-dimensional boolean mask: the selected elements in row-major
  order; numpy raises \<open>IndexError\<close> when the shapes differ.
\<close>

definition bool_index :: "'a array2 \<Rightarrow> bool array2 \<Rightarrow> error + 'a list" where
  "bool_index x m =
     (if np_shape x = np_shape m
      then Inr (map fst (filter snd (zip (concat (rows x)) (concat (rows m)))))
      else Inl IndexError)"

section \<open>The ground-truth grid and the pixel cloud\<close>

text \<open>
  The content of a GDEM netCDF file. A variable that the file lacks is \<open>None\<close>
  (reading it raises \<open>KeyError\<close>), and so is a missing global attribute
  (\<open>AttributeError\<close>). The two spacings are numpy scalars of the machine types that the
  file stores them in (64-bit or 32-bit floats, 32-bit integers, \<dots>); the type \<open>'n\<close> of
  these scalars is left open. The grids of elevation, latitude and longitude are only
  copied, never computed with, and are kept as reals.
\<close>

record 'n gdem_dataset =
  var_landtype :: "int array2 option"
  var_elevation :: "real array2 option"
  var_latitude :: "real array2 option"
  var_longitude :: "real array2 option"
  var_cross_track :: "real list option"
  attr_ground_spacing :: "'n option"
  attr_azimuth_spacing :: "'n option"
  attr_cycle_number :: "int option"
  attr_pass_number :: "int option"

definition read_var :: "string \<Rightarrow> 'a option \<Rightarrow> error + 'a" where
  "read_var name v = (case v of None \<Rightarrow> Inl (KeyError name) | Some x \<Rightarrow> Inr x)"

definition read_attr :: "string \<Rightarrow> 'a option \<Rightarrow> error + 'a" where
  "read_attr name v = (case v of None \<Rightarrow> Inl (AttributeError name) | Some x \<Rightarrow> Inr x)"

text \<open>What lines 59--73 of \<open>make_pixc_from_gdem\<close> leave in the local variables.\<close>

record 'n gdem_arrays =
  landtype :: "int array2"
  elevation :: "real array2"
  lat :: "real array2"
  lon :: "real array2"
  cross_track_in :: "real list"
  r_spacing :: 'n
  a_spacing :: 'n

definition read_gdem :: "'n gdem_dataset \<Rightarrow> int \<Rightarrow> error + 'n gdem_arrays" where
  "read_gdem ifp subsample_factor =
     bindE (read_var ''landtype'' (var_landtype ifp)) (\<lambda>landtype0.
     bindE (decimate subsample_factor landtype0) (\<lambda>landtype1.
     bindE (read_var ''elevation'' (var_elevation ifp)) (\<lambda>elevation0.
     bindE (decimate subsample_factor elevation0) (\<lambda>elevation1.
     bindE (read_var ''latitude'' (var_latitude ifp)) (\<lambda>lat0.
     bindE (decimate subsample_factor lat0) (\<lambda>lat1.
     bindE (read_var ''longitude'' (var_longitude ifp)) (\<lambda>lon0.
     bindE (decimate subsample_factor lon0) (\<lambda>lon1.
     bindE (read_var ''cross_track'' (var_cross_track ifp)) (\<lambda>cross_track0.
     bindE (read_attr ''ground_spacing'' (attr_ground_spacing ifp)) (\<lambda>rs.
     bindE (read_attr ''azimuth_spacing'' (attr_azimuth_spacing ifp)) (\<lambda>as.
     bindE (read_attr ''cycle_number'' (attr_cycle_number ifp)) (\<lambda>cycle_num.
     bindE (read_attr ''pass_number'' (attr_pass_number ifp)) (\<lambda>pass_num.
       Inr \<lparr>landtype = landtype1, elevation = elevation1, lat = lat1, lon = lon1,
            cross_track_in = cross_track0, r_spacing = rs, a_spacing = as\<rparr>)))))))))))))"

text \<open>
  Modelled from the spec: the class \<open>PixelCloud\<close> of \<open>cnes.sas.lib.base_classes\<close>, which is
  not in the source tree. The record holds the per-pixel arrays that
  \<open>make_pixc_from_gdem\<close> assigns, the global attributes it overwrites, and the
  attributes taken from the donor. The entries of \<open>pixel_area\<close> are the 64-bit floats
  that line 106 computes, of a type \<open>'f\<close> that the model leaves open.
\<close>

record 'f pixel_cloud =
  copied_attributes :: "string \<rightharpoonup> string"
  tile_ref :: string
  description :: string
  nr_pixels :: nat
  nr_lines :: nat
  classification :: "int list"
  continuous_classification :: "real list"
  height :: "real list"
  latitude :: "real list"
  longitude :: "real list"
  pixel_area :: "'f list"
  cross_track :: "real list"
  range_index :: "int list"
  azimuth_index :: "int list"
  illumination_time :: "int list"
  num_rare_looks :: "real list"

text \<open>
  Modelled from the spec: the constructor \<^verbatim>\<open>base_classes.PixelCloud()\<close>, not in the
  source tree: an object with nothing assigned yet.
\<close>

definition PixelCloud :: "'f pixel_cloud" where
  "PixelCloud =
     \<lparr>copied_attributes = Map.empty, tile_ref = [], description = [],
      nr_pixels = 0, nr_lines = 0, classification = [], continuous_classification = [],
      height = [], latitude = [], longitude = [], pixel_area = [], cross_track = [],
      range_index = [], azimuth_index = [], illumination_time = [], num_rare_looks = []\<rparr>"

text \<open>
  Modelled from the spec: \<open>PixelCloud.copy_attributes\<close> of \<open>cnes.sas.lib.base_classes\<close>,
  which is not in the source tree: the donor's global attributes are copied into the
  result before any of them is overwritten.
\<close>

definition copy_attributes :: "'f pixel_cloud \<Rightarrow> 'f pixel_cloud \<Rightarrow> 'f pixel_cloud" where
  "copy_attributes pixc pixc_in =
     pixc\<lparr>copied_attributes := copied_attributes pixc_in, tile_ref := tile_ref pixc_in,
          description := description pixc_in, nr_pixels := nr_pixels pixc_in,
          nr_lines := nr_lines pixc_in\<rparr>"

text \<open>Lines 76--86: the synthetic index grids and the water-only selection.\<close>

record water_pixels =
  sel_A :: nat
  sel_R :: nat
  sel_classif :: "int list"
  sel_elevation :: "real list"
  sel_lat :: "real list"
  sel_lon :: "real list"
  sel_cross_track :: "real list"
  sel_range_index :: "int list"
  sel_azimuth_index :: "int list"

definition select_water :: "'n gdem_arrays \<Rightarrow> error + water_pixels" where
  "select_water g =
     (let (A, R) = np_shape (landtype g);
          (range_index0, azimuth_index0) = meshgrid (np_arange R) (np_arange A);
          (cross_track0, azimuth_index1) = meshgrid (cross_track_in g) (np_arange A);
          water = mask_eq (landtype g) 1
      in bindE (bool_index (landtype g) water) (\<lambda>classif.
         bindE (bool_index (elevation g) water) (\<lambda>elevation1.
         bindE (bool_index (lat g) water) (\<lambda>lat1.
         bindE (bool_index (lon g) water) (\<lambda>lon1.
         bindE (bool_index cross_track0 water) (\<lambda>cross_track1.
         bindE (bool_index range_index0 water) (\<lambda>range_index1.
         bindE (bool_index azimuth_index1 water) (\<lambda>azimuth_index2.
           Inr \<lparr>sel_A = A, sel_R = R, sel_classif = classif, sel_elevation = elevation1,
                sel_lat = lat1, sel_lon = lon1, sel_cross_track = cross_track1,
                sel_range_index = range_index1,
                sel_azimuth_index = azimuth_index2\<rparr>))))))))"

text \<open>
  The machine arithmetic of line 106, which numpy supplies and the source tree does not
  hold, taken as a parameter: the product of two scalars as numpy computes it in their
  machine types (a 32-bit integer product wraps around, a float product is rounded),
  the product of a scalar with a Python integer, the conversion of a scalar to a 64-bit
  float, the sum of two 64-bit floats, and the entry 0.0 of \<^verbatim>\<open>np.zeros\<close>.
\<close>

record ('n, 'f) arith =
  np_mul :: "'n \<Rightarrow> 'n \<Rightarrow> 'n"
  np_mul_int :: "'n \<Rightarrow> int \<Rightarrow> 'n"
  np_float64 :: "'n \<Rightarrow> 'f"
  np_add :: "'f \<Rightarrow> 'f \<Rightarrow> 'f"
  np_zero :: 'f

text \<open>
  Lines 93--111: the donor's attributes, then the overwritten global attributes and the
  per-pixel arrays. \<^verbatim>\<open>np.zeros(np.shape(x)) + c\<close> adds \<open>c\<close> to each entry of a zero
  array as long as \<open>x\<close>; in line 106 \<open>c\<close> is
  \<^verbatim>\<open>r_spacing * a_spacing * subsample_factor\<close>, computed from the left in the machine
  arithmetic and converted to the array's type. The scalar first stored in
  \<open>num_rare_looks\<close> (line 99) is overwritten by the array of line 111.
\<close>

definition np_zeros :: "nat \<Rightarrow> real list" where
  "np_zeros n = replicate n 0"

definition assign_fields ::
  "('n, 'f) arith \<Rightarrow> 'f pixel_cloud \<Rightarrow> 'n gdem_arrays \<Rightarrow> water_pixels \<Rightarrow> int \<Rightarrow> 'f pixel_cloud" where
  "assign_fields ar pixc_in g w subsample_factor =
     (copy_attributes PixelCloud pixc_in)
       \<lparr>description := ''gdem water pixels repacked as a pixel cloud'',
        nr_pixels := sel_R w,
        nr_lines := sel_A w,
        classification := map (\<lambda>c. c * 0 + 4) (sel_classif w),
        continuous_classification := map (\<lambda>c. real_of_int c * 0 + 1.0) (sel_classif w),
        height := sel_elevation w,
        latitude := sel_lat w,
        longitude := sel_lon w,
        pixel_area :=
          map (\<lambda>z. np_add ar z
                     (np_float64 ar
                        (np_mul_int ar (np_mul ar (r_spacing g) (a_spacing g)) subsample_factor)))
              (replicate (length (sel_lat w)) (np_zero ar)),
        cross_track := sel_cross_track w,
        range_index := sel_range_index w,
        azimuth_index := sel_azimuth_index w,
        illumination_time := sel_azimuth_index w,
        num_rare_looks := map (\<lambda>z. z + real_of_int subsample_factor)
                            (np_zeros (length (sel_azimuth_index w)))\<rparr>"

text \<open>
  The converter between the two file accesses: \<open>ifp\<close> is the content of the GDEM file,
  \<open>donor\<close> what \<^verbatim>\<open>PixelCloud.from_ncfile(pixc_file, force=True)\<close> returns or raises
  (line 91, reached only once the selection has succeeded), and the result is the
  object handed to \<open>to_ncfile\<close>.
\<close>

definition pixc_from_gdem ::
  "('n, 'f) arith \<Rightarrow> 'n gdem_dataset \<Rightarrow> error + 'f pixel_cloud \<Rightarrow> int \<Rightarrow> error + 'f pixel_cloud" where
  "pixc_from_gdem ar ifp donor subsample_factor =
     bindE (read_gdem ifp subsample_factor) (\<lambda>g.
     bindE (select_water g) (\<lambda>w.
     bindE donor (\<lambda>pixc_in.
       Inr (assign_fields ar pixc_in g w subsample_factor))))"

section \<open>Strings and paths\<close>

text \<open>\<^verbatim>\<open>s.split(sep)\<close> with a one-character separator: never an empty list.\<close>

fun py_split :: "char \<Rightarrow> string \<Rightarrow> string list" where
  "py_split sep [] = [[]]"
| "py_split sep (c # cs) =
     (if c = sep then [] # py_split sep cs
      else (case py_split sep cs of [] \<Rightarrow> [[c]] | w # ws \<Rightarrow> (c # w) # ws))"

text \<open>\<^verbatim>\<open>xs[i]\<close> for a literal index \<open>i \<ge> 0\<close>: \<open>IndexError\<close> when out of range.\<close>

definition py_index :: "'a list \<Rightarrow> nat \<Rightarrow> error + 'a" where
  "py_index xs i = (if i < length xs then Inr (xs ! i) else Inl IndexError)"

text \<open>\<^verbatim>\<open>d[key]\<close> on a dictionary.\<close>

definition dict_get :: "(string \<rightharpoonup> string) \<Rightarrow> string \<Rightarrow> error + string" where
  "dict_get d key = (case d key of None \<Rightarrow> Inl (KeyError key) | Some v \<Rightarrow> Inr v)"

text \<open>\<^verbatim>\<open>s.replace(old, new)\<close>: every non-overlapping occurrence, from the left.\<close>

function py_replace :: "string \<Rightarrow> string \<Rightarrow> string \<Rightarrow> string" where
  "py_replace old new s =
     (if old = [] then new @ concat (map (\<lambda>c. c # new) s)
      else if s = [] then []
      else if take (length old) s = old then new @ py_replace old new (drop (length old) s)
      else hd s # py_replace old new (tl s))"
  by pat_completeness auto
termination
  by (relation "measure (\<lambda>(old, new, s). length s)") auto

declare py_replace.simps [simp del]

text \<open>\<^verbatim>\<open>"%s" % x\<close> where \<open>x\<close> is a string or \<open>None\<close>.\<close>

definition fmt_s :: "string option \<Rightarrow> string" where
  "fmt_s x = (case x of None \<Rightarrow> ''None'' | Some s \<Rightarrow> s)"

text \<open>\<^verbatim>\<open>"%d" % n\<close> for a length.\<close>

function fmt_d :: "nat \<Rightarrow> string" where
  "fmt_d n = (if n < 10 then [char_of (48 + n)] else fmt_d (n div 10) @ [char_of (48 + n mod 10)])"
  by pat_completeness auto
termination
  by (relation "measure id") auto

declare fmt_d.simps [simp del]

text \<open>The functions of \<open>posixpath\<close> that only look at the string.\<close>

definition os_path_basename :: "string \<Rightarrow> string" where
  "os_path_basename p = rev (takeWhile (\<lambda>c. c \<noteq> CHR ''/'') (rev p))"

definition os_path_join :: "string \<Rightarrow> string \<Rightarrow> string" where
  "os_path_join a b =
     (if take 1 b = ''/'' then b
      else if a = [] \<or> last a = CHR ''/'' then a @ b
      else a @ ''/'' @ b)"

definition os_path_split :: "string \<Rightarrow> string \<times> string" where
  "os_path_split p =
     (let tail = os_path_basename p;
          head = take (length p - length tail) p
      in (if head \<noteq> [] \<and> \<not> list_all (\<lambda>c. c = CHR ''/'') head
          then rev (dropWhile (\<lambda>c. c = CHR ''/'') (rev head)) else head,
          tail))"

section \<open>The orchestrator's world\<close>

text \<open>
  What the run does to its surroundings, in order. \<open>Print\<close> is a line on standard
  output; \<open>MakePixcFromGdem\<close> a call of the converter with its four arguments;
  \<open>Execute cmd rc\<close> a child process whose output has been read to its end and whose
  exit status \<open>rc\<close> has been looked at (line 128); \<open>PixcToShp\<close> a call of the shapefile
  exporter; \<open>WriteAnnotation\<close> a file written with its lines.
\<close>

datatype event =
    is_print: Print string
  | is_makedirs: MakeDirs string
  | is_synthesis: MakePixcFromGdem string string string int
  | is_extraction: Execute string int
  | is_export: PixcToShp string string string string "string list" "string option"
  | is_annotation: WriteAnnotation string "string list"

text \<open>
  The external collaborators, over a file-system state \<open>'fs\<close> that the model leaves
  open: path normalisation and the process environment, the file-system queries, the
  descriptor parser \<open>my_rdf.myRdfReader(path).parameters\<close>, netCDF reading and writing,
  the machine arithmetic, the child process, the shapefile exporter and the writing of
  a text file. A collaborator that raises returns \<open>Inl\<close>; the state after an exception is
  never looked at again.

  The child process is started with a pipe read in text mode. \<open>popen\<close> gives the lines
  of its standard output that the loop of lines 125--126 reads and echoes; the exception
  that reading raises, if any (\<open>UnicodeDecodeError\<close> at bytes that do not decode), after
  which no further line is read; the exit status of the child, which has ended when the
  \<^verbatim>\<open>with\<close> block is left; and the state the child leaves.
\<close>

record ('fs, 'n, 'f) env =
  abspath :: "string \<Rightarrow> string"
  environ :: "string \<rightharpoonup> string"
  isfile :: "'fs \<Rightarrow> string \<Rightarrow> bool"
  isdir :: "'fs \<Rightarrow> string \<Rightarrow> bool"
  glob :: "'fs \<Rightarrow> string \<Rightarrow> string list"
  makedirs :: "string \<Rightarrow> 'fs \<Rightarrow> error + 'fs"
  myRdfReader :: "'fs \<Rightarrow> string \<Rightarrow> error + (string \<rightharpoonup> string)"
  nc_Dataset :: "'fs \<Rightarrow> string \<Rightarrow> error + 'n gdem_dataset"
  from_ncfile :: "'fs \<Rightarrow> string \<Rightarrow> error + 'f pixel_cloud"
  to_ncfile :: "'f pixel_cloud \<Rightarrow> string \<Rightarrow> string \<Rightarrow> 'fs \<Rightarrow> error + 'fs"
  numpy :: "('n, 'f) arith"
  popen :: "string \<Rightarrow> 'fs \<Rightarrow> string list \<times> error option \<times> int \<times> 'fs"
  pixc_to_shp :: "string \<Rightarrow> string \<Rightarrow> string \<Rightarrow> string \<Rightarrow> string list \<Rightarrow> string option
                  \<Rightarrow> 'fs \<Rightarrow> error + 'fs"
  write_text :: "string \<Rightarrow> string list \<Rightarrow> 'fs \<Rightarrow> error + 'fs"

text \<open>
  A statement sequence: from a state to a result or an exception, the new state and the
  events of the sequence.
\<close>

type_synonym ('fs, 'a) io = "'fs \<Rightarrow> (error + 'a) \<times> 'fs \<times> event list"

definition return_io :: "'a \<Rightarrow> ('fs, 'a) io" where
  "return_io a fs = (Inr a, fs, [])"

definition seq :: "('fs, 'a) io \<Rightarrow> ('a \<Rightarrow> ('fs, 'b) io) \<Rightarrow> ('fs, 'b) io" where
  "seq m f fs =
     (case m fs of
        (Inl e, fs1, ev) \<Rightarrow> (Inl e, fs1, ev)
      | (Inr a, fs1, ev) \<Rightarrow> (case f a fs1 of (r, fs2, ev2) \<Rightarrow> (r, fs2, ev @ ev2)))"

definition emit :: "event \<Rightarrow> ('fs, unit) io" where
  "emit e fs = (Inr (), fs, [e])"

definition lift :: "error + 'a \<Rightarrow> ('fs, 'a) io" where
  "lift r fs = (r, fs, [])"

definition reads :: "('fs \<Rightarrow> error + 'a) \<Rightarrow> ('fs, 'a) io" where
  "reads g fs = (g fs, fs, [])"

definition effect :: "('fs \<Rightarrow> error + 'fs) \<Rightarrow> ('fs, unit) io" where
  "effect g fs = (case g fs of Inl e \<Rightarrow> (Inl e, fs, []) | Inr fs1 \<Rightarrow> (Inr (), fs1, []))"

text \<open>The parsed command line (\<open>args\<close> of \<open>main\<close>).\<close>

record args =
  l2pixc_annotation_file :: string
  output_dir :: string
  parameter_riverobs :: string
  riverobs_path :: "string option"
  nogdem :: bool
  noshp :: bool
  force :: bool

section \<open>The functions of the script\<close>

text \<open>
  \<open>write_annotation_file\<close> (lines 29--43): each \<open>f.write\<close> is one line of the file. The
  event is recorded once the file has been opened and written.
\<close>

definition write_annotation_file ::
  "('fs, 'n, 'f) env \<Rightarrow> string \<Rightarrow> string \<Rightarrow> string option \<Rightarrow> string \<Rightarrow> string option \<Rightarrow> ('fs, unit) io" where
  "write_annotation_file env ann_file pixc_file gdem_pixc pixcvec_file pixcvec_file_gdem =
     (let f = [''pixc file = '' @ pixc_file,
               ''gdem pixc file = '' @ fmt_s gdem_pixc,
               ''pixcvec file = '' @ pixcvec_file] @
              (case pixcvec_file_gdem of
                 None \<Rightarrow> []
               | Some g \<Rightarrow> [''pixcvec file from gdem = '' @ g])
      in seq (effect (write_text env ann_file f)) (\<lambda>_.
         emit (WriteAnnotation ann_file f)))"

text \<open>
  \<open>make_pixc_from_gdem\<close> (lines 46--117) with its file accesses: the GDEM file is
  opened, the cloud is built by \<open>pixc_from_gdem\<close> (which takes the donor's attributes
  from \<open>pixc_file\<close>), and the cloud is written under the name and the directory of
  \<open>out_file\<close>. The progress lines it prints are left out.
\<close>

definition make_pixc_from_gdem ::
  "('fs, 'n, 'f) env \<Rightarrow> string \<Rightarrow> string \<Rightarrow> string \<Rightarrow> int \<Rightarrow> ('fs, unit) io" where
  "make_pixc_from_gdem env gdem_file pixc_file out_file subsample_factor =
     seq (emit (MakePixcFromGdem gdem_file pixc_file out_file subsample_factor)) (\<lambda>_.
     seq (reads (\<lambda>fs. nc_Dataset env fs gdem_file)) (\<lambda>ifp.
     seq (reads (\<lambda>fs. pixc_from_gdem (numpy env) ifp (from_ncfile env fs pixc_file)
                       subsample_factor)) (\<lambda>pixc.
       (let (pth, out_name) = os_path_split out_file;
            out_path = abspath env pth
        in effect (to_ncfile env pixc out_name out_path)))))"

text \<open>
  \<open>execute\<close> (lines 123--129): the child's output is echoed line by line. An exception
  raised while reading it leaves the function before line 128, whatever the exit
  status. Otherwise the exit status is looked at, and a non-zero one raises
  \<open>CalledProcessError\<close> with the status and the command.
\<close>

definition execute :: "('fs, 'n, 'f) env \<Rightarrow> string \<Rightarrow> ('fs, unit) io" where
  "execute env cmd fs =
     (case popen env cmd fs of
        (out_lines, read_error, returncode, fs1) \<Rightarrow>
          (case read_error of
             Some e \<Rightarrow> (Inl e, fs1, map Print out_lines)
           | None \<Rightarrow>
               (if returncode \<noteq> 0 then Inl (CalledProcessError returncode cmd) else Inr (),
                fs1,
                map Print out_lines @ [Execute cmd returncode])))"

text \<open>
  The body of the loop of \<open>main\<close>, in the order of the source. Lines 168--203: the
  descriptor is parsed, the tile identity is taken from its file name, the output
  directories are created when absent, and the paths are derived.
\<close>

definition pixc_ann_split :: "string \<Rightarrow> string list" where
  "pixc_ann_split pixc_ann_file =
     py_split CHR ''_'' (hd (py_split CHR ''.'' (os_path_basename pixc_ann_file)))"

definition tile_name :: "string \<Rightarrow> string \<Rightarrow> string \<Rightarrow> string" where
  "tile_name num_cycle num_orbit lat_tile = num_cycle @ ''_'' @ num_orbit @ ''_'' @ lat_tile"

record job_paths =
  ann_cfg :: "string \<rightharpoonup> string"
  num_cycle :: string
  num_orbit :: string
  lat_tile :: string
  river_dir :: string
  pixc_file :: string
  output_riverobs :: string
  output_pixcvec :: string
  river_ann_file :: string

definition ensure_dir :: "('fs, 'n, 'f) env \<Rightarrow> string \<Rightarrow> ('fs, unit) io" where
  "ensure_dir env d =
     seq (reads (\<lambda>fs. Inr (isdir env fs d))) (\<lambda>there.
       if \<not> there then seq (emit (MakeDirs d)) (\<lambda>_. effect (makedirs env d))
       else return_io ())"

definition resolve_paths :: "('fs, 'n, 'f) env \<Rightarrow> args \<Rightarrow> string \<Rightarrow> ('fs, job_paths) io" where
  "resolve_paths env args pixc_ann_file =
     seq (emit (Print (''> Dealing with PixC annotation file '' @ pixc_ann_file))) (\<lambda>_.
     seq (reads (\<lambda>fs. myRdfReader env fs (abspath env pixc_ann_file))) (\<lambda>cfg.
     seq (lift (py_index (pixc_ann_split pixc_ann_file) 2)) (\<lambda>cycle.
     seq (lift (py_index (pixc_ann_split pixc_ann_file) 3)) (\<lambda>orbit.
     seq (lift (py_index (pixc_ann_split pixc_ann_file) 4)) (\<lambda>tile.
     seq (emit (Print (''Cycle number = '' @ cycle @ '' - Orbit number = '' @ orbit @
                       '' - Tile ref = '' @ tile))) (\<lambda>_.
     seq (emit (Print [])) (\<lambda>_.
     seq (ensure_dir env (abspath env (os_path_join (output_dir args) ''pixc''))) (\<lambda>_.
     seq (if \<not> nogdem args then ensure_dir env (os_path_join (output_dir args) ''gdem'')
          else return_io ()) (\<lambda>_.
     seq (lift (dict_get cfg ''l2pixc file'')) (\<lambda>l2pixc.
       (let rdir = abspath env (os_path_join (output_dir args) ''pixc'')
        in return_io
          \<lparr>ann_cfg = cfg, num_cycle = cycle, num_orbit = orbit, lat_tile = tile,
           river_dir = rdir,
           pixc_file = abspath env l2pixc,
           output_riverobs =
             os_path_join rdir (''rivertile_'' @ tile_name cycle orbit tile @ ''.nc''),
           output_pixcvec =
             os_path_join rdir (''pixcvec_'' @ tile_name cycle orbit tile @ ''.nc''),
           river_ann_file =
             os_path_join (output_dir args)
               (''river-annotation_'' @ tile_name cycle orbit tile @ ''.rdf'')\<rparr>)))))))))))"

text \<open>
  Lines 204--228. The existence check of both branches is the same test; when it holds
  the source prints its message and executes \<^verbatim>\<open>return\<close>, which is the result \<open>None\<close>
  here. Otherwise the result holds \<open>gdem_pixc\<close> and \<open>output_pixcvec_gdem\<close>, both \<open>None\<close>
  under \<open>--nogdem\<close>.
\<close>

definition outputs_exist :: "('fs, 'n, 'f) env \<Rightarrow> args \<Rightarrow> job_paths \<Rightarrow> 'fs \<Rightarrow> bool" where
  "outputs_exist env args p fs =
     (\<not> force args \<and> isfile env fs (output_riverobs p) \<and> isfile env fs (output_pixcvec p))"

definition river_dir_gdem :: "args \<Rightarrow> string" where
  "river_dir_gdem args = os_path_join (output_dir args) ''gdem''"

definition output_pixcvec_gdem :: "args \<Rightarrow> job_paths \<Rightarrow> string" where
  "output_pixcvec_gdem args p =
     os_path_join (river_dir_gdem args)
       (''pixcvec_'' @ tile_name (num_cycle p) (num_orbit p) (lat_tile p) @ ''.nc'')"

definition gdem_pixc_path :: "args \<Rightarrow> job_paths \<Rightarrow> string" where
  "gdem_pixc_path args p =
     os_path_join (river_dir_gdem args)
       (''pixel_cloud_gdem'' @ num_cycle p @ ''-'' @ num_orbit p @ ''_'' @ lat_tile p @ ''.nc'')"

definition reference_branch ::
  "('fs, 'n, 'f) env \<Rightarrow> args \<Rightarrow> job_paths \<Rightarrow> ('fs, (string option \<times> string option) option) io" where
  "reference_branch env args p =
     (if nogdem args then
        seq (reads (\<lambda>fs. Inr (outputs_exist env args p fs))) (\<lambda>exist.
          if exist then
            seq (emit (Print ''--> Output files already exist; EXIT'')) (\<lambda>_. return_io None)
          else return_io (Some (None, None)))
      else
        seq (reads (\<lambda>fs. Inr (outputs_exist env args p fs))) (\<lambda>exist.
          if exist then
            seq (emit (Print ''--> Output files already exist; EXIT'')) (\<lambda>_. return_io None)
          else
            seq (lift (dict_get (ann_cfg p) ''true GDEM file'')) (\<lambda>true_gdem.
            seq (emit (Print true_gdem)) (\<lambda>_.
            seq (make_pixc_from_gdem env true_gdem (pixc_file p) (gdem_pixc_path args p) 2) (\<lambda>_.
              return_io (Some (Some (gdem_pixc_path args p),
                               Some (output_pixcvec_gdem args p))))))))"

text \<open>
  Lines 259--272: the command line of the extraction program; \<open>KeyError\<close> when neither the
  option nor the environment names the installation.
\<close>

definition extraction_command :: "('fs, 'n, 'f) env \<Rightarrow> args \<Rightarrow> job_paths \<Rightarrow> error + string" where
  "extraction_command env args p =
     bindE (case riverobs_path args of
              Some path \<Rightarrow> Inr path
            | None \<Rightarrow> dict_get (environ env) ''RIVEROBS'') (\<lambda>path_to_riverobs.
       (let prog_name =
              os_path_join (os_path_join (os_path_join path_to_riverobs ''src'') ''bin'')
                ''swot_pixc2rivertile.py''
        in Inr (prog_name @ '' '' @ pixc_file p @ '' '' @ output_riverobs p @ '' '' @
                output_pixcvec p @ '' '' @ abspath env (parameter_riverobs args))))"

text \<open>Lines 259--278: the command line, and the run of the extraction program.\<close>

definition extraction :: "('fs, 'n, 'f) env \<Rightarrow> args \<Rightarrow> job_paths \<Rightarrow> ('fs, unit) io" where
  "extraction env args p =
     seq (lift (extraction_command env args p)) (\<lambda>cmd.
     seq (emit (Print (''> executing: '' @ cmd))) (\<lambda>_.
     seq (execute env cmd) (\<lambda>_.
     seq (emit (Print ''== Execution OK'')) (\<lambda>_.
     emit (Print [])))))"

text \<open>Lines 305--340: the three shapefiles of the observed branch.\<close>

definition call_pixc_to_shp ::
  "('fs, 'n, 'f) env \<Rightarrow> string \<Rightarrow> string \<Rightarrow> string \<Rightarrow> string \<Rightarrow> string list \<Rightarrow> string option
   \<Rightarrow> ('fs, unit) io" where
  "call_pixc_to_shp env input output lat_name lon_name var_names group_name =
     seq (emit (PixcToShp input output lat_name lon_name var_names group_name)) (\<lambda>_.
     effect (pixc_to_shp env input output lat_name lon_name var_names group_name))"

definition shapefiles :: "('fs, 'n, 'f) env \<Rightarrow> args \<Rightarrow> job_paths \<Rightarrow> ('fs, unit) io" where
  "shapefiles env args p =
     (if \<not> noshp args then
        (let pixcvec_vars = [''height_vectorproc'', ''node_index'', ''reach_index'',
                             ''azimuth_index'', ''range_index''];
             node_vars = [''time'', ''height'', ''width'', ''area_total'', ''node_id'',
                          ''reach_id''];
             reach_vars = [''reach_id'', ''width'', ''height'', ''slope'', ''area_total'']
         in seq (emit (Print ''> Converting .nc files to shapefiles...'')) (\<lambda>_.
            seq (emit (Print ''. Node shapefile'')) (\<lambda>_.
            seq (call_pixc_to_shp env (output_riverobs p)
                   (py_replace ''.nc'' ''_node.shp'' (output_riverobs p))
                   ''latitude'' ''longitude'' node_vars (Some ''nodes'')) (\<lambda>_.
            seq (emit (Print ''. Reach shapefile'')) (\<lambda>_.
            seq (call_pixc_to_shp env (output_riverobs p)
                   (py_replace ''.nc'' ''_reach.shp'' (output_riverobs p))
                   ''p_latitud'' ''p_longitud'' reach_vars (Some ''reaches'')) (\<lambda>_.
            seq (emit (Print ''. PIXCVec shapefile'')) (\<lambda>_.
            call_pixc_to_shp env (output_pixcvec p)
              (py_replace ''.nc'' ''.shp'' (output_pixcvec p))
              ''latitude_vectorproc'' ''longitude_vectorproc'' pixcvec_vars None)))))))
      else return_io ())"

text \<open>
  One pass through the loop body: \<open>Next\<close> when the body runs to its end, \<open>Return\<close> when
  the \<^verbatim>\<open>return\<close> of the existence check is executed.
\<close>

datatype flow = Next | Return

definition process_job :: "('fs, 'n, 'f) env \<Rightarrow> args \<Rightarrow> string \<Rightarrow> ('fs, flow) io" where
  "process_job env args pixc_ann_file =
     seq (resolve_paths env args pixc_ann_file) (\<lambda>p.
     seq (reference_branch env args p) (\<lambda>branch.
       case branch of
         None \<Rightarrow> return_io Return
       | Some (gdem_pixc, pixcvec_gdem) \<Rightarrow>
           seq (extraction env args p) (\<lambda>_.
           seq (shapefiles env args p) (\<lambda>_.
           seq (write_annotation_file env (river_ann_file p) (pixc_file p) gdem_pixc
                  (output_pixcvec p) pixcvec_gdem) (\<lambda>_.
           return_io Next)))))"

text \<open>
  The \<^verbatim>\<open>for\<close> loop of \<open>main\<close>: an exception leaves the loop, and so does the
  \<^verbatim>\<open>return\<close>.
\<close>

fun main_loop :: "('fs, 'n, 'f) env \<Rightarrow> args \<Rightarrow> string list \<Rightarrow> ('fs, flow) io" where
  "main_loop env args [] fs = (Inr Next, fs, [])"
| "main_loop env args (pixc_ann_file # rest) fs =
     (case process_job env args pixc_ann_file fs of
        (Inl e, fs1, ev) \<Rightarrow> (Inl e, fs1, ev)
      | (Inr Return, fs1, ev) \<Rightarrow> (Inr Return, fs1, ev)
      | (Inr Next, fs1, ev) \<Rightarrow>
          (case main_loop env args rest fs1 of (r, fs2, ev2) \<Rightarrow> (r, fs2, ev @ ev2)))"

text \<open>Lines 153--159: the descriptors of the run.\<close>

definition rdf_files :: "('fs, 'n, 'f) env \<Rightarrow> args \<Rightarrow> 'fs \<Rightarrow> string list" where
  "rdf_files env args fs =
     (if isfile env fs (l2pixc_annotation_file args)
      then glob env fs (l2pixc_annotation_file args)
      else glob env fs (os_path_join (l2pixc_annotation_file args) ''*.rdf''))"

text \<open>
  \<open>main\<close> after the command line has been parsed. The closing lines are printed only
  when the loop ends by itself.
\<close>

definition main :: "('fs, 'n, 'f) env \<Rightarrow> args \<Rightarrow> ('fs, unit) io" where
  "main env args =
     seq (emit (Print ''===== l2pixc_to_rivertile = BEGIN ====='')) (\<lambda>_.
     seq (emit (Print [])) (\<lambda>_.
     seq (reads (\<lambda>fs. Inr (rdf_files env args fs))) (\<lambda>files.
     seq (emit (Print (if length files = 0 then ''> NO PixC annotation file to deal with''
                       else ''> '' @ fmt_d (length files) @
                            '' PixC annotation file(s) to deal with''))) (\<lambda>_.
     seq (emit (Print [])) (\<lambda>_.
     seq (main_loop env args files) (\<lambda>fl.
       case fl of
         Return \<Rightarrow> return_io ()
       | Next \<Rightarrow>
           seq (emit (Print [])) (\<lambda>_.
           emit (Print ''===== l2pixc_to_rivertile = END =====''))))))))"

section \<open>Statements about runs\<close>

text \<open>Every event of a statement sequence, from whatever state it starts, satisfies \<open>P\<close>.\<close>

definition every_event :: "(event \<Rightarrow> bool) \<Rightarrow> ('fs, 'a) io \<Rightarrow> bool" where
  "every_event P m = (\<forall>fs. list_all P (snd (snd (m fs))))"

text \<open>An event that is not a converter call with a subsample factor other than 2.\<close>

definition factor_two :: "event \<Rightarrow> bool" where
  "factor_two e = (case e of MakePixcFromGdem g p out k \<Rightarrow> k = 2 | _ \<Rightarrow> True)"

text \<open>An event that is neither an extraction, nor an export, nor an annotation.\<close>

definition before_extraction :: "event \<Rightarrow> bool" where
  "before_extraction e = (\<not> is_extraction e \<and> \<not> is_export e \<and> \<not> is_annotation e)"

text \<open>An event that is a printed line or the creation of a directory.\<close>

definition quiet :: "event \<Rightarrow> bool" where
  "quiet e = (is_print e \<or> is_makedirs e)"

section \<open>Input conditions and sample inputs\<close>

text \<open>
  The conditions of the GDEM file format on the content of a file: every array is
  rectangular; the four grids have one shape and \<open>cross_track\<close> has one entry per
  column; the four global attributes are there.
\<close>

definition wf_gdem :: "'n gdem_dataset \<Rightarrow> bool" where
  "wf_gdem ifp =
     (case_option True wf_array2 (var_landtype ifp) \<and>
      case_option True wf_array2 (var_elevation ifp) \<and>
      case_option True wf_array2 (var_latitude ifp) \<and>
      case_option True wf_array2 (var_longitude ifp))"

definition coregistered :: "'n gdem_dataset \<Rightarrow> bool" where
  "coregistered ifp =
     (case (var_landtype ifp, var_elevation ifp, var_latitude ifp, var_longitude ifp,
            var_cross_track ifp) of
        (Some l, Some e, Some la, Some lo, Some ct) \<Rightarrow>
          np_shape e = np_shape l \<and> np_shape la = np_shape l \<and> np_shape lo = np_shape l \<and>
          length ct = ncols l
      | _ \<Rightarrow> False)"

definition attributes_present :: "'n gdem_dataset \<Rightarrow> bool" where
  "attributes_present ifp =
     (attr_ground_spacing ifp \<noteq> None \<and> attr_azimuth_spacing ifp \<noteq> None \<and>
      attr_cycle_number ifp \<noteq> None \<and> attr_pass_number ifp \<noteq> None)"

definition scenario_landtype :: "int array2" where
  "scenario_landtype = Array2 3 [[0, 1, 0], [1, 1, 0], [0, 0, 1], [1, 0, 0]]"

definition scenario_gdem :: "real gdem_dataset" where
  "scenario_gdem =
     \<lparr>var_landtype = Some scenario_landtype,
      var_elevation = Some (Array2 3 [[10, 11, 12], [20, 21, 22], [30, 31, 32], [40, 41, 42]]),
      var_latitude = Some (Array2 3 [[1, 1, 1], [2, 2, 2], [3, 3, 3], [4, 4, 4]]),
      var_longitude = Some (Array2 3 [[5, 6, 7], [5, 6, 7], [5, 6, 7], [5, 6, 7]]),
      var_cross_track = Some [100, 200, 300],
      attr_ground_spacing = Some 10,
      attr_azimuth_spacing = Some 5,
      attr_cycle_number = Some 1,
      attr_pass_number = Some 23\<rparr>"

definition all_land_gdem :: "real gdem_dataset" where
  "all_land_gdem =
     \<lparr>var_landtype = Some (Array2 2 [[0, 0], [2, 0], [0, 3]]),
      var_elevation = Some (Array2 2 [[1, 2], [3, 4], [5, 6]]),
      var_latitude = Some (Array2 2 [[1, 1], [2, 2], [3, 3]]),
      var_longitude = Some (Array2 2 [[5, 6], [5, 6], [5, 6]]),
      var_cross_track = Some [100, 200],
      attr_ground_spacing = Some 10,
      attr_azimuth_spacing = Some 5,
      attr_cycle_number = Some 1,
      attr_pass_number = Some 23\<rparr>"

definition scenario_donor :: "real pixel_cloud" where
  "scenario_donor = PixelCloud\<lparr>tile_ref := ''45N'', description := ''observed pixel cloud''\<rparr>"

text \<open>
  Two arithmetics for the samples. \<open>exact_arith\<close> computes in the reals, as the machine
  does on the spacings 10 and 5 of the sample files, whose products are exact.
  \<open>int32_arith\<close> is the arithmetic of spacings stored as 32-bit integers: a product
  wraps around into \<open>-2^31 \<dots> 2^31 - 1\<close>, and the conversion to a float is exact.
\<close>

definition exact_arith :: "(real, real) arith" where
  "exact_arith =
     \<lparr>np_mul = (\<lambda>x y. x * y), np_mul_int = (\<lambda>x k. x * real_of_int k),
      np_float64 = (\<lambda>x. x), np_add = (\<lambda>x y. x + y), np_zero = 0\<rparr>"

definition wrap32 :: "int \<Rightarrow> int" where
  "wrap32 x = (x + 2147483648) mod 4294967296 - 2147483648"

definition int32_arith :: "(int, real) arith" where
  "int32_arith =
     \<lparr>np_mul = (\<lambda>x y. wrap32 (x * y)), np_mul_int = (\<lambda>x k. wrap32 (x * k)),
      np_float64 = real_of_int, np_add = (\<lambda>x y. x + y), np_zero = 0\<rparr>"

text \<open>The scenario grid with both spacings stored as the 32-bit integer 100000.\<close>

definition int32_gdem :: "int gdem_dataset" where
  "int32_gdem =
     \<lparr>var_landtype = Some scenario_landtype,
      var_elevation = Some (Array2 3 [[10, 11, 12], [20, 21, 22], [30, 31, 32], [40, 41, 42]]),
      var_latitude = Some (Array2 3 [[1, 1, 1], [2, 2, 2], [3, 3, 3], [4, 4, 4]]),
      var_longitude = Some (Array2 3 [[5, 6, 7], [5, 6, 7], [5, 6, 7], [5, 6, 7]]),
      var_cross_track = Some [100, 200, 300],
      attr_ground_spacing = Some 100000,
      attr_azimuth_spacing = Some 100000,
      attr_cycle_number = Some 1,
      attr_pass_number = Some 23\<rparr>"

section \<open>A sample world\<close>

text \<open>
  A world for running the orchestrator on concrete input: the state is the set of the
  regular files; the working directory is \<open>/work\<close> and no sample path needs
  normalising; every directory exists; the input directory \<open>/in\<close> holds two
  descriptors, each naming the same pixel cloud and GDEM; the child process prints one
  line that decodes and exits with the given status. In \<open>garbled_env\<close> the child prints
  that line, then bytes that do not decode, and exits with status 2.
\<close>

definition demo_jobs :: "string list" where
  "demo_jobs = [''/in/pixc_annotation_001_023_45N.rdf'', ''/in/pixc_annotation_001_023_46N.rdf'']"

definition demo_env :: "int \<Rightarrow> (string set, real, real) env" where
  "demo_env exit_status =
     \<lparr>abspath = (\<lambda>p. if take 1 p = ''/'' then p else ''/work/'' @ p),
      environ = [''RIVEROBS'' \<mapsto> ''/opt/RiverObs''],
      isfile = (\<lambda>fs p. p \<in> fs),
      isdir = (\<lambda>fs p. True),
      glob = (\<lambda>fs pattern. if pattern = ''/in/*.rdf'' then demo_jobs else []),
      makedirs = (\<lambda>d fs. Inr fs),
      myRdfReader = (\<lambda>fs p. Inr [''l2pixc file'' \<mapsto> ''/in/pixc.nc'',
                                  ''true GDEM file'' \<mapsto> ''/in/gdem.nc'']),
      nc_Dataset = (\<lambda>fs p. Inr scenario_gdem),
      from_ncfile = (\<lambda>fs p. Inr scenario_donor),
      to_ncfile = (\<lambda>pixc name path fs. Inr (insert (os_path_join path name) fs)),
      numpy = exact_arith,
      popen = (\<lambda>cmd fs. ([''running''], None, exit_status, fs)),
      pixc_to_shp = (\<lambda>input output lat_name lon_name var_names group_name fs.
                       Inr (insert output fs)),
      write_text = (\<lambda>p f fs. Inr (insert p fs))\<rparr>"

definition garbled_env :: "(string set, real, real) env" where
  "garbled_env =
     (demo_env 2)\<lparr>popen := (\<lambda>cmd fs. ([''running''], Some UnicodeDecodeError, 2, fs))\<rparr>"

definition demo_args :: args where
  "demo_args =
     \<lparr>l2pixc_annotation_file = ''/in'', output_dir = ''/out'',
      parameter_riverobs = ''param.rdf'', riverobs_path = None,
      nogdem = False, noshp = False, force = False\<rparr>"

definition demo_outputs :: "string set" where
  "demo_outputs = {''/out/pixc/rivertile_001_023_45N.nc'', ''/out/pixc/pixcvec_001_023_45N.nc''}"

text \<open>The paths of the first sample descriptor, and the command line of its extraction.\<close>

definition paths_45N :: job_paths where
  "paths_45N =
     \<lparr>ann_cfg = [''l2pixc file'' \<mapsto> ''/in/pixc.nc'', ''true GDEM file'' \<mapsto> ''/in/gdem.nc''],
      num_cycle = ''001'', num_orbit = ''023'', lat_tile = ''45N'',
      river_dir = ''/out/pixc'', pixc_file = ''/in/pixc.nc'',
      output_riverobs = ''/out/pixc/rivertile_001_023_45N.nc'',
      output_pixcvec = ''/out/pixc/pixcvec_001_023_45N.nc'',
      river_ann_file = ''/out/river-annotation_001_023_45N.rdf''\<rparr>"

definition demo_cmd :: string where
  "demo_cmd = ''/opt/RiverObs/src/bin/swot_pixc2rivertile.py /in/pixc.nc /out/pixc/rivertile_001_023_45N.nc /out/pixc/pixcvec_001_023_45N.nc /work/param.rdf''"

section \<open>Properties of the array operations\<close>

lemma bindE_Inr: "bindE m f = Inr y \<Longrightarrow> \<exists>a. m = Inr a \<and> f a = Inr y"
  by (cases m) (simp_all add: bindE_def)

lemma bindE_Inr_iff: "bindE m f = Inr y \<longleftrightarrow> (\<exists>a. m = Inr a \<and> f a = Inr y)"
  by (cases m) (simp_all add: bindE_def)

lemma length_take_every:
  "0 < k \<Longrightarrow> length (take_every k xs) = (length xs + k - 1) div k"
proof (induction k xs rule: take_every.induct)
  case (1 k)
  then show ?case by simp
next
  case (2 k x xs)
  have "(length xs - (k - 1) + k - 1) div k = length xs div k"
  proof (cases "k - 1 \<le> length xs")
    case True
    then show ?thesis using 2(2) by simp
  next
    case False
    then show ?thesis using 2(2) by simp
  qed
  moreover have "(Suc (length xs) + k - 1) div k = Suc (length xs div k)"
    using 2(2) by simp
  ultimately show ?case using 2 by simp
qed

lemma nth_take_every:
  "0 < k \<Longrightarrow> i < length (take_every k xs) \<Longrightarrow> take_every k xs ! i = xs ! (i * k)"
proof (induction k xs arbitrary: i rule: take_every.induct)
  case (1 k)
  then show ?case by simp
next
  case (2 k x xs)
  show ?case
  proof (cases i)
    case 0
    then show ?thesis by simp
  next
    case (Suc j)
    have j: "j < length (take_every k (drop (k - 1) xs))"
      using 2(3) Suc by simp
    have "take_every k (drop (k - 1) xs) ! j = drop (k - 1) xs ! (j * k)"
      using 2(1)[OF 2(2) j] .
    moreover have "j * k < length (drop (k - 1) xs)"
    proof -
      have "j < (length (drop (k - 1) xs) + k - 1) div k"
        using j length_take_every[OF 2(2)] by metis
      then have "\<not> (length (drop (k - 1) xs) + k - 1) div k < Suc j" by simp
      then have "\<not> length (drop (k - 1) xs) + k - 1 < Suc j * k"
        using 2(2) by (simp add: div_less_iff_less_mult)
      then show ?thesis using 2(2) by simp
    qed
    ultimately show ?thesis using Suc 2(2)
      by (simp add: add.commute)
  qed
qed

lemma ceil_div: "0 < k \<Longrightarrow> nat \<lceil>real A / real k\<rceil> = (A + k - 1) div k"
proof -
  assume k: "0 < k"
  define m where "m = (A + k - 1) div k"
  have up: "A \<le> m * k"
  proof -
    have "A + k - 1 = m * k + (A + k - 1) mod k" by (simp add: m_def)
    moreover have "(A + k - 1) mod k < k" using k by simp
    ultimately show ?thesis by linarith
  qed
  have lo: "m * k < A + k"
  proof -
    have "m * k \<le> A + k - 1" by (simp add: m_def)
    then show ?thesis using k by linarith
  qed
  have "real A / real k \<le> real m"
    using up k by (simp add: pos_divide_le_eq flip: of_nat_mult)
  moreover have "real m - 1 < real A / real k"
  proof -
    have "real (m * k) < real (A + k)" using lo by (simp only: of_nat_less_iff)
    then have "(real m - 1) * real k < real A" by (simp add: algebra_simps)
    then show ?thesis using k by (simp add: pos_less_divide_eq)
  qed
  ultimately have "\<lceil>real A / real k\<rceil> = int m"
    by (intro ceiling_unique) simp_all
  then show ?thesis by (simp add: m_def)
qed

lemma set_take_every: "set (take_every k xs) \<subseteq> set xs"
proof (induction k xs rule: take_every.induct)
  case (1 k)
  then show ?case by simp
next
  case (2 k x xs)
  have "set (drop (k - 1) xs) \<subseteq> set xs" by (rule set_drop_subset)
  with 2 show ?case by auto
qed

lemma py_slice_step_set: "py_slice_step k xs = Inr ys \<Longrightarrow> set ys \<subseteq> set xs"
  using set_take_every[of "nat k" xs] set_take_every[of "nat (- k)" "rev xs"]
  by (auto simp: py_slice_step_def split: if_splits)

lemma py_slice_step_length:
  "py_slice_step k xs = Inr ys \<Longrightarrow> py_slice_step k zs = Inr ws \<Longrightarrow> length xs = length zs
   \<Longrightarrow> length ys = length ws"
  by (auto simp: py_slice_step_def length_take_every split: if_splits)

lemma decimate_Inr:
  "decimate k a = Inr d \<Longrightarrow> \<exists>rs. py_slice_step k (rows a) = Inr rs \<and> d = Array2 (ncols a) rs"
  by (auto simp: decimate_def bindE_Inr_iff)

lemma decimate_wf: "decimate k a = Inr d \<Longrightarrow> wf_array2 a \<Longrightarrow> wf_array2 d"
  using py_slice_step_set by (fastforce simp: wf_array2_def list_all_iff dest!: decimate_Inr)

lemma decimate_ncols: "decimate k a = Inr d \<Longrightarrow> ncols d = ncols a"
  by (auto dest!: decimate_Inr)

lemma decimate_same_shape:
  "decimate k a = Inr d \<Longrightarrow> decimate k b = Inr e \<Longrightarrow> np_shape a = np_shape b
   \<Longrightarrow> np_shape d = np_shape e"
  by (auto simp: np_shape_def dest!: decimate_Inr dest: py_slice_step_length)

lemma decimate_total: "k \<noteq> 0 \<Longrightarrow> \<exists>d. decimate k a = Inr d"
  by (simp add: decimate_def py_slice_step_def bindE_def)

lemma decimate_pos:
  "1 \<le> k \<Longrightarrow> decimate k a = Inr (Array2 (ncols a) (take_every (nat k) (rows a)))"
  by (simp add: decimate_def py_slice_step_def bindE_def)

lemma length_concat_const:
  "\<forall>r \<in> set rs. length r = n \<Longrightarrow> length (concat rs) = length rs * n"
  by (induction rs) simp_all

lemma length_concat_wf: "wf_array2 a \<Longrightarrow> length (concat (rows a)) = length (rows a) * ncols a"
  by (simp add: wf_array2_def list_all_iff length_concat_const)

lemma length_select:
  "length xs = length ms \<Longrightarrow> length (map fst (filter snd (zip xs ms))) = count_list ms True"
  by (induction xs ms rule: list_induct2) simp_all

lemma count_mask: "count_list (map (\<lambda>x. x = v) xs) True = count_list xs v"
  by (induction xs) auto

lemma concat_mask_eq: "concat (rows (mask_eq a v)) = map (\<lambda>x. x = v) (concat (rows a))"
  by (simp add: mask_eq_def map_concat)

lemma wf_mask_eq: "wf_array2 a \<Longrightarrow> wf_array2 (mask_eq a v)"
  by (simp add: wf_array2_def mask_eq_def list_all_iff)

lemma np_shape_mask_eq: "np_shape (mask_eq a v) = np_shape a"
  by (simp add: np_shape_def mask_eq_def)

lemma bool_index_length:
  assumes "bool_index x (mask_eq a v) = Inr ys" "wf_array2 x" "wf_array2 a"
  shows "length ys = count_list (concat (rows a)) v"
proof -
  have sh: "np_shape x = np_shape a" and ys: "ys = map fst (filter snd (zip (concat (rows x)) (concat (rows (mask_eq a v)))))"
    using assms(1) by (auto simp: bool_index_def np_shape_mask_eq split: if_splits)
  have "length (concat (rows x)) = length (concat (rows (mask_eq a v)))"
    using sh assms(2,3) by (simp add: length_concat_wf concat_mask_eq np_shape_def)
  then have "length ys = count_list (concat (rows (mask_eq a v))) True"
    unfolding ys by (rule length_select)
  then show ?thesis by (simp only: concat_mask_eq count_mask)
qed

lemma bool_index_total: "np_shape x = np_shape a \<Longrightarrow> \<exists>ys. bool_index x (mask_eq a v) = Inr ys"
  by (simp add: bool_index_def np_shape_mask_eq)

lemma meshgrid_fst: "wf_array2 (fst (meshgrid xs ys)) \<and> np_shape (fst (meshgrid xs ys)) = (length ys, length xs)"
  by (simp add: meshgrid_def wf_array2_def np_shape_def list_all_iff)

lemma meshgrid_snd: "wf_array2 (snd (meshgrid xs ys)) \<and> np_shape (snd (meshgrid xs ys)) = (length ys, length xs)"
  by (simp add: meshgrid_def wf_array2_def np_shape_def list_all_iff)

lemma read_gdem_Inr:
  assumes "read_gdem ifp k = Inr g"
  shows "\<exists>l0 e0 la0 lo0.
           var_landtype ifp = Some l0 \<and> decimate k l0 = Inr (landtype g) \<and>
           var_elevation ifp = Some e0 \<and> decimate k e0 = Inr (elevation g) \<and>
           var_latitude ifp = Some la0 \<and> decimate k la0 = Inr (lat g) \<and>
           var_longitude ifp = Some lo0 \<and> decimate k lo0 = Inr (lon g) \<and>
           var_cross_track ifp = Some (cross_track_in g) \<and>
           attr_ground_spacing ifp = Some (r_spacing g) \<and>
           attr_azimuth_spacing ifp = Some (a_spacing g)"
  using assms unfolding read_gdem_def read_var_def read_attr_def
  by (auto simp: bindE_Inr_iff split: option.splits)

lemma select_water_Inr:
  assumes "select_water g = Inr w"
  shows "sel_A w = length (rows (landtype g)) \<and> sel_R w = ncols (landtype g) \<and>
         bool_index (landtype g) (mask_eq (landtype g) 1) = Inr (sel_classif w) \<and>
         bool_index (elevation g) (mask_eq (landtype g) 1) = Inr (sel_elevation w) \<and>
         bool_index (lat g) (mask_eq (landtype g) 1) = Inr (sel_lat w) \<and>
         bool_index (lon g) (mask_eq (landtype g) 1) = Inr (sel_lon w) \<and>
         bool_index (fst (meshgrid (cross_track_in g) (np_arange (length (rows (landtype g))))))
            (mask_eq (landtype g) 1) = Inr (sel_cross_track w) \<and>
         bool_index (fst (meshgrid (np_arange (ncols (landtype g))) (np_arange (length (rows (landtype g))))))
            (mask_eq (landtype g) 1) = Inr (sel_range_index w) \<and>
         bool_index (snd (meshgrid (cross_track_in g) (np_arange (length (rows (landtype g))))))
            (mask_eq (landtype g) 1) = Inr (sel_azimuth_index w)"
  using assms unfolding select_water_def np_shape_def Let_def
  by (auto simp: bindE_Inr_iff split: prod.splits)

lemma pixc_from_gdem_Inr:
  assumes "pixc_from_gdem ar ifp donor k = Inr pc"
  shows "\<exists>g w pixc_in. read_gdem ifp k = Inr g \<and> select_water g = Inr w \<and>
           donor = Inr pixc_in \<and> pc = assign_fields ar pixc_in g w k"
  using assms unfolding pixc_from_gdem_def by (auto simp: bindE_Inr_iff)

lemma bool_index_self:
  "bool_index a (mask_eq a v) = Inr ys \<Longrightarrow> ys = filter (\<lambda>x. x = v) (concat (rows a))"
proof -
  have "map fst (filter snd (zip xs (map (\<lambda>x. x = v) xs))) = filter (\<lambda>x. x = v) xs" for xs
    by (induction xs) auto
  then show "bool_index a (mask_eq a v) = Inr ys \<Longrightarrow> ys = filter (\<lambda>x. x = v) (concat (rows a))"
    by (auto simp: bool_index_def concat_mask_eq split: if_splits)
qed

lemma length_filter_count: "length (filter (\<lambda>x. x = v) xs) = count_list xs v"
  by (induction xs) auto

lemma scenario_read:
  "read_gdem scenario_gdem 2 =
     Inr \<lparr>landtype = Array2 3 [[0, 1, 0], [0, 0, 1]],
          elevation = Array2 3 [[10, 11, 12], [30, 31, 32]],
          lat = Array2 3 [[1, 1, 1], [3, 3, 3]],
          lon = Array2 3 [[5, 6, 7], [5, 6, 7]],
          cross_track_in = [100, 200, 300], r_spacing = 10, a_spacing = 5\<rparr>"
  by (simp add: read_gdem_def scenario_gdem_def scenario_landtype_def read_var_def read_attr_def
      bindE_def decimate_def py_slice_step_def eval_nat_numeral)

section \<open>Properties of the conversion\<close>

lemma pixc_from_gdem_lengths:
  assumes "wf_gdem ifp" and "pixc_from_gdem ar ifp donor k = Inr pc"
  shows "\<exists>l0 ld. var_landtype ifp = Some l0 \<and> decimate k l0 = Inr ld \<and>
           (let N = count_list (concat (rows ld)) 1 in
        length (classification pc) = N \<and>
        length (continuous_classification pc) = N \<and>
        length (height pc) = N \<and>
        length (latitude pc) = N \<and>
        length (longitude pc) = N \<and>
        length (pixel_area pc) = N \<and>
        length (cross_track pc) = N \<and>
        length (range_index pc) = N \<and>
        length (azimuth_index pc) = N \<and>
        length (illumination_time pc) = N \<and>
        length (num_rare_looks pc) = N)"
proof -
  from pixc_from_gdem_Inr[OF assms(2)] obtain g w pin where
    g: "read_gdem ifp k = Inr g" and w: "select_water g = Inr w"
    and pc: "pc = assign_fields ar pin g w k" by blast
  from read_gdem_Inr[OF g] obtain l0 e0 la0 lo0 where
    l0: "var_landtype ifp = Some l0" "decimate k l0 = Inr (landtype g)" and
    e0: "var_elevation ifp = Some e0" "decimate k e0 = Inr (elevation g)" and
    la0: "var_latitude ifp = Some la0" "decimate k la0 = Inr (lat g)" and
    lo0: "var_longitude ifp = Some lo0" "decimate k lo0 = Inr (lon g)" by blast
  have wfl: "wf_array2 (landtype g)" and wfe: "wf_array2 (elevation g)"
    and wfla: "wf_array2 (lat g)" and wflo: "wf_array2 (lon g)"
    using assms(1) l0 e0 la0 lo0 by (auto simp: wf_gdem_def intro: decimate_wf)
  define N where "N = count_list (concat (rows (landtype g))) 1"
  note sw = select_water_Inr[OF w]
  have c: "length (sel_classif w) = N"
    using sw wfl unfolding N_def by (blast intro: bool_index_length)
  have e: "length (sel_elevation w) = N"
    using sw wfl wfe unfolding N_def by (blast intro: bool_index_length)
  have la: "length (sel_lat w) = N"
    using sw wfl wfla unfolding N_def by (blast intro: bool_index_length)
  have lo: "length (sel_lon w) = N"
    using sw wfl wflo unfolding N_def by (blast intro: bool_index_length)
  have ct: "length (sel_cross_track w) = N"
    using sw wfl meshgrid_fst unfolding N_def by (blast intro: bool_index_length)
  have ri: "length (sel_range_index w) = N"
    using sw wfl meshgrid_fst unfolding N_def by (blast intro: bool_index_length)
  have ai: "length (sel_azimuth_index w) = N"
    using sw wfl meshgrid_snd unfolding N_def by (blast intro: bool_index_length)
  have "length (classification pc) = N \<and>
        length (continuous_classification pc) = N \<and>
        length (height pc) = N \<and>
        length (latitude pc) = N \<and>
        length (longitude pc) = N \<and>
        length (pixel_area pc) = N \<and>
        length (cross_track pc) = N \<and>
        length (range_index pc) = N \<and>
        length (azimuth_index pc) = N \<and>
        length (illumination_time pc) = N \<and>
        length (num_rare_looks pc) = N"
    by (simp add: pc assign_fields_def np_zeros_def c e la lo ct ri ai)
  then show ?thesis
    using l0 unfolding N_def Let_def by blast
qed

lemma pixc_from_gdem_total:
  assumes "coregistered ifp" "attributes_present ifp" "k \<noteq> 0"
  shows "\<exists>pc. pixc_from_gdem ar ifp (Inr pixc_in) k = Inr pc"
proof -
  from assms obtain l e la lo ct where
    v: "var_landtype ifp = Some l" "var_elevation ifp = Some e" "var_latitude ifp = Some la"
       "var_longitude ifp = Some lo" "var_cross_track ifp = Some ct" and
    sh: "np_shape e = np_shape l" "np_shape la = np_shape l" "np_shape lo = np_shape l"
        "length ct = ncols l"
    by (auto simp: coregistered_def split: option.splits)
  from assms obtain rs as cn pn where
    at: "attr_ground_spacing ifp = Some rs" "attr_azimuth_spacing ifp = Some as"
        "attr_cycle_number ifp = Some cn" "attr_pass_number ifp = Some pn"
    by (auto simp: attributes_present_def)
  have k: "k \<noteq> 0" by (rule assms(3))
  obtain ld where ld: "decimate k l = Inr ld" using decimate_total[OF k] by blast
  obtain ed where ed: "decimate k e = Inr ed" using decimate_total[OF k] by blast
  obtain lad where lad: "decimate k la = Inr lad" using decimate_total[OF k] by blast
  obtain lod where lod: "decimate k lo = Inr lod" using decimate_total[OF k] by blast
  define g where "g = \<lparr>landtype = ld, elevation = ed, lat = lad, lon = lod,
            cross_track_in = ct, r_spacing = rs, a_spacing = as\<rparr>"
  have g: "read_gdem ifp k = Inr g"
    by (simp add: read_gdem_def read_var_def read_attr_def bindE_def v at ld ed lad lod g_def)
  have she: "np_shape ed = np_shape ld" using decimate_same_shape[OF ed ld sh(1)] .
  have shla: "np_shape lad = np_shape ld" using decimate_same_shape[OF lad ld sh(2)] .
  have shlo: "np_shape lod = np_shape ld" using decimate_same_shape[OF lod ld sh(3)] .
  have nc: "ncols ld = length ct" using decimate_ncols[OF ld] sh(4) by simp
  have "\<exists>w. select_water g = Inr w"
    unfolding select_water_def Let_def
    using she shla shlo
    by (simp add: g_def bool_index_def bindE_def mask_eq_def
        np_shape_def meshgrid_def np_arange_def nc split: prod.splits)
  then obtain w where w: "select_water g = Inr w" by blast
  show ?thesis
    by (simp add: pixc_from_gdem_def g w bindE_def)
qed

lemma scenario_decimated:
  "decimate 2 scenario_landtype = Inr (Array2 3 [[0, 1, 0], [0, 0, 1]])"
  by (simp add: decimate_def py_slice_step_def bindE_def scenario_landtype_def eval_nat_numeral)

lemma scenario_mask:
  "mask_eq (Array2 3 [[0, 1, 0], [0, 0, 1]]) (1::int) =
     Array2 3 [[False, True, False], [False, False, True]]"
  by (simp add: mask_eq_def)

lemma arange_2: "np_arange (Suc (Suc 0)) = [0, 1]" and arange_3: "np_arange 3 = [0, 1, 2]"
  by (simp_all add: np_arange_def upt_rec)

section \<open>The sample conversions, evaluated\<close>

lemma scenario_select:
  "select_water \<lparr>landtype = Array2 3 [[0, 1, 0], [0, 0, 1]],
          elevation = Array2 3 [[10, 11, 12], [30, 31, 32]],
          lat = Array2 3 [[1, 1, 1], [3, 3, 3]],
          lon = Array2 3 [[5, 6, 7], [5, 6, 7]],
          cross_track_in = [100, 200, 300], r_spacing = rs, a_spacing = as\<rparr> =
   Inr \<lparr>sel_A = 2, sel_R = 3, sel_classif = [1, 1], sel_elevation = [11, 32],
        sel_lat = [1, 3], sel_lon = [6, 7], sel_cross_track = [200, 300],
        sel_range_index = [1, 2], sel_azimuth_index = [0, 1]\<rparr>"
  by (simp add: select_water_def np_shape_def meshgrid_def mask_eq_def bool_index_def bindE_def
      arange_2 arange_3 numeral_2_eq_2)

lemma scenario_pixc:
  "pixc_from_gdem exact_arith scenario_gdem (Inr scenario_donor) 2 =
     Inr (assign_fields exact_arith scenario_donor
       \<lparr>landtype = Array2 3 [[0, 1, 0], [0, 0, 1]],
        elevation = Array2 3 [[10, 11, 12], [30, 31, 32]],
        lat = Array2 3 [[1, 1, 1], [3, 3, 3]],
        lon = Array2 3 [[5, 6, 7], [5, 6, 7]],
        cross_track_in = [100, 200, 300], r_spacing = 10, a_spacing = 5\<rparr>
       \<lparr>sel_A = 2, sel_R = 3, sel_classif = [1, 1], sel_elevation = [11, 32],
        sel_lat = [1, 3], sel_lon = [6, 7], sel_cross_track = [200, 300],
        sel_range_index = [1, 2], sel_azimuth_index = [0, 1]\<rparr> 2)"
  by (simp add: pixc_from_gdem_def scenario_read scenario_select bindE_def)

lemma scenario_conditions:
  "wf_gdem scenario_gdem" "coregistered scenario_gdem" "attributes_present scenario_gdem"
  by (simp_all add: wf_gdem_def coregistered_def attributes_present_def scenario_gdem_def
      scenario_landtype_def wf_array2_def np_shape_def)

lemma all_land_conditions:
  "wf_gdem all_land_gdem" "coregistered all_land_gdem" "attributes_present all_land_gdem"
  by (simp_all add: wf_gdem_def coregistered_def attributes_present_def all_land_gdem_def
      wf_array2_def np_shape_def)

lemma all_land_decimated:
  "var_landtype all_land_gdem = Some l0 \<Longrightarrow> decimate 2 l0 = Inr ld \<Longrightarrow>
   count_list (concat (rows ld)) 1 = 0"
  by (auto simp: all_land_gdem_def decimate_def py_slice_step_def bindE_def eval_nat_numeral)

lemma int32_read:
  "read_gdem int32_gdem 2 =
     Inr \<lparr>landtype = Array2 3 [[0, 1, 0], [0, 0, 1]],
          elevation = Array2 3 [[10, 11, 12], [30, 31, 32]],
          lat = Array2 3 [[1, 1, 1], [3, 3, 3]],
          lon = Array2 3 [[5, 6, 7], [5, 6, 7]],
          cross_track_in = [100, 200, 300], r_spacing = 100000, a_spacing = 100000\<rparr>"
  by (simp add: read_gdem_def int32_gdem_def scenario_landtype_def read_var_def read_attr_def
      bindE_def decimate_def py_slice_step_def eval_nat_numeral)

lemma int32_pixc:
  "pixc_from_gdem int32_arith int32_gdem (Inr scenario_donor) 2 =
     Inr (assign_fields int32_arith scenario_donor
       \<lparr>landtype = Array2 3 [[0, 1, 0], [0, 0, 1]],
        elevation = Array2 3 [[10, 11, 12], [30, 31, 32]],
        lat = Array2 3 [[1, 1, 1], [3, 3, 3]],
        lon = Array2 3 [[5, 6, 7], [5, 6, 7]],
        cross_track_in = [100, 200, 300], r_spacing = 100000, a_spacing = 100000\<rparr>
       \<lparr>sel_A = 2, sel_R = 3, sel_classif = [1, 1], sel_elevation = [11, 32],
        sel_lat = [1, 3], sel_lon = [6, 7], sel_cross_track = [200, 300],
        sel_range_index = [1, 2], sel_azimuth_index = [0, 1]\<rparr> 2)"
  by (simp add: pixc_from_gdem_def int32_read scenario_select bindE_def)

lemma int32_product: "np_mul_int int32_arith (np_mul int32_arith 100000 100000) 2 = - 1474836480"
  by (simp add: int32_arith_def wrap32_def)

section \<open>The claims about the converter\<close>

text \<open>
  C2. The end-to-end scenario: for a GDEM file whose \<open>landtype\<close> is the 4\<times>3 grid
  \<open>[[0,1,0],[1,1,0],[0,0,1],[1,0,0]]\<close> (the other grids of the same shape, whatever they
  hold) and \<open>subsample_factor = 2\<close>, the conversion succeeds; the decimated \<open>landtype\<close> is
  rows 0 and 2, \<open>[[0,1,0],[0,0,1]]\<close>; the water mask is true exactly at (row 0, column 1)
  and (row 1, column 2); and the cloud has two pixels with \<open>range_index = [1, 2]\<close>,
  \<open>azimuth_index = [0, 1]\<close> and \<open>classification = [4, 4]\<close>.
\<close>

theorem end_to_end_scenario:
  assumes "var_landtype ifp = Some scenario_landtype"
    and "coregistered ifp" and "attributes_present ifp"
  shows "\<exists>g pc. read_gdem ifp 2 = Inr g \<and>
           landtype g = Array2 3 [[0, 1, 0], [0, 0, 1]] \<and>
           mask_eq (landtype g) 1 = Array2 3 [[False, True, False], [False, False, True]] \<and>
           pixc_from_gdem ar ifp (Inr pixc_in) 2 = Inr pc \<and>
           length (classification pc) = 2 \<and>
           range_index pc = [1, 2] \<and>
           azimuth_index pc = [0, 1] \<and>
           classification pc = [4, 4]"
proof -
  obtain pc where pc: "pixc_from_gdem ar ifp (Inr pixc_in) 2 = Inr pc"
    using pixc_from_gdem_total[OF assms(2,3), of 2 ar pixc_in] by auto
  from pixc_from_gdem_Inr[OF pc] obtain g w where
    g: "read_gdem ifp 2 = Inr g" and w: "select_water g = Inr w"
    and pcv: "pc = assign_fields ar pixc_in g w 2" by auto
  from read_gdem_Inr[OF g] assms(1) have
    lt: "landtype g = Array2 3 [[0, 1, 0], [0, 0, 1]]"
    and ct: "var_cross_track ifp = Some (cross_track_in g)"
    by (auto simp: scenario_decimated)
  have len: "length (cross_track_in g) = 3"
    using assms(1,2) ct by (auto simp: coregistered_def scenario_landtype_def split: option.splits)
  then obtain c0 c1 c2 where cts: "cross_track_in g = [c0, c1, c2]"
    by (auto simp: eval_nat_numeral length_Suc_conv)
  note sw = select_water_Inr[OF w]
  have "bool_index (Array2 3 [[0, 1, 0], [0, 0, 1]])
          (Array2 3 [[False, True, False], [False, False, True]]) = Inr (sel_classif w)"
    using sw by (simp add: lt scenario_mask)
  then have cl: "sel_classif w = [1, 1]"
    by (simp add: bool_index_def np_shape_def)
  have "bool_index (fst (meshgrid (np_arange 3) (np_arange (Suc (Suc 0)))))
          (Array2 3 [[False, True, False], [False, False, True]]) = Inr (sel_range_index w)"
    using sw by (simp add: lt scenario_mask)
  then have ri: "sel_range_index w = [1, 2]"
    by (simp add: bool_index_def np_shape_def meshgrid_def arange_2 arange_3)
  have "bool_index (snd (meshgrid [c0, c1, c2] (np_arange (Suc (Suc 0)))))
          (Array2 3 [[False, True, False], [False, False, True]]) = Inr (sel_azimuth_index w)"
    using sw by (simp add: lt scenario_mask cts)
  then have ai: "sel_azimuth_index w = [0, 1]"
    by (simp add: bool_index_def np_shape_def meshgrid_def arange_2 eval_nat_numeral)
  show ?thesis
    using g pc by (simp add: lt scenario_mask pcv assign_fields_def cl ri ai)
qed

theorem end_to_end_scenario_witness:
  "var_landtype scenario_gdem = Some scenario_landtype \<and>
   coregistered scenario_gdem \<and> attributes_present scenario_gdem \<and>
   (\<exists>pc. pixc_from_gdem exact_arith scenario_gdem (Inr scenario_donor) 2 = Inr pc \<and>
      range_index pc = [1, 2] \<and> azimuth_index pc = [0, 1] \<and> classification pc = [4, 4] \<and>
      height pc = [11, 32] \<and> cross_track pc = [200, 300])"
proof -
  have l: "var_landtype scenario_gdem = Some scenario_landtype"
    by (simp add: scenario_gdem_def)
  from end_to_end_scenario[OF l scenario_conditions(2,3), where ar = exact_arith
      and pixc_in = scenario_donor]
  show ?thesis
    using l scenario_conditions by (auto simp: scenario_pixc assign_fields_def)
qed

text \<open>
  C3. On a GDEM file with rectangular arrays, every per-pixel array of a returned cloud
  has the same length \<open>N\<close>, the number of cells of the decimated \<open>landtype\<close> that hold the
  water class (the class is the constant 1 in \<open>make_pixc_from_gdem\<close>, which has no
  parameter for it). The conversion does return a cloud whenever the grids are
  co-registered, the attributes are present, the donor is readable and the subsample
  factor is not zero: so with no water cell the result is the empty cloud, not an error.
\<close>

theorem per_pixel_lengths:
  assumes "wf_gdem ifp"
  shows "(\<forall>pc. pixc_from_gdem ar ifp donor k = Inr pc \<longrightarrow>
            (\<exists>l0 ld. var_landtype ifp = Some l0 \<and> decimate k l0 = Inr ld \<and>
               (let N = count_list (concat (rows ld)) 1 in
                  length (classification pc) = N \<and>
                  length (continuous_classification pc) = N \<and>
                  length (height pc) = N \<and>
                  length (latitude pc) = N \<and>
                  length (longitude pc) = N \<and>
                  length (pixel_area pc) = N \<and>
                  length (cross_track pc) = N \<and>
                  length (range_index pc) = N \<and>
                  length (azimuth_index pc) = N \<and>
                  length (illumination_time pc) = N \<and>
                  length (num_rare_looks pc) = N))) \<and>
         (coregistered ifp \<and> attributes_present ifp \<and> k \<noteq> 0 \<and> donor = Inr pixc_in \<longrightarrow>
            (\<exists>pc. pixc_from_gdem ar ifp donor k = Inr pc))"
  using pixc_from_gdem_lengths[OF assms] pixc_from_gdem_total[of ifp k ar pixc_in]
  by blast

theorem per_pixel_lengths_witness:
  "wf_gdem all_land_gdem \<and> coregistered all_land_gdem \<and> attributes_present all_land_gdem \<and>
   (\<exists>pc. pixc_from_gdem exact_arith all_land_gdem (Inr scenario_donor) 2 = Inr pc \<and>
      classification pc = [] \<and> continuous_classification pc = [] \<and> height pc = [] \<and>
      latitude pc = [] \<and> longitude pc = [] \<and> pixel_area pc = [] \<and> cross_track pc = [] \<and>
      range_index pc = [] \<and> azimuth_index pc = [] \<and> illumination_time pc = [] \<and>
      num_rare_looks pc = [])"
proof -
  note t = per_pixel_lengths[OF all_land_conditions(1), where ar = exact_arith
      and donor = "Inr scenario_donor" and k = 2 and pixc_in = scenario_donor]
  from t all_land_conditions obtain pc where
    pc: "pixc_from_gdem exact_arith all_land_gdem (Inr scenario_donor) 2 = Inr pc" by auto
  with t obtain l0 ld where
    "var_landtype all_land_gdem = Some l0" "decimate 2 l0 = Inr ld" and
    "let N = count_list (concat (rows ld)) 1 in
       length (classification pc) = N \<and> length (continuous_classification pc) = N \<and>
       length (height pc) = N \<and> length (latitude pc) = N \<and> length (longitude pc) = N \<and>
       length (pixel_area pc) = N \<and> length (cross_track pc) = N \<and>
       length (range_index pc) = N \<and> length (azimuth_index pc) = N \<and>
       length (illumination_time pc) = N \<and> length (num_rare_looks pc) = N"
    by blast
  then have "classification pc = [] \<and> continuous_classification pc = [] \<and> height pc = [] \<and>
      latitude pc = [] \<and> longitude pc = [] \<and> pixel_area pc = [] \<and> cross_track pc = [] \<and>
      range_index pc = [] \<and> azimuth_index pc = [] \<and> illumination_time pc = [] \<and>
      num_rare_looks pc = []"
    by (simp add: all_land_decimated Let_def)
  with pc all_land_conditions show ?thesis by blast
qed

text \<open>
  C5. In every cloud the conversion returns, \<open>classification\<close> holds the interior-water
  code 4 and \<open>continuous_classification\<close> holds 1.0 at every retained pixel: both arrays
  have one entry per water cell of the decimated \<open>landtype\<close>, and the entries depend on
  no input value.
\<close>

theorem classification_remap:
  assumes "pixc_from_gdem ar ifp donor k = Inr pc"
  shows "\<exists>l0 ld. var_landtype ifp = Some l0 \<and> decimate k l0 = Inr ld \<and>
           classification pc = replicate (count_list (concat (rows ld)) 1) 4 \<and>
           continuous_classification pc = replicate (count_list (concat (rows ld)) 1) 1"
proof -
  from pixc_from_gdem_Inr[OF assms] obtain g w pin where
    g: "read_gdem ifp k = Inr g" and w: "select_water g = Inr w"
    and pc: "pc = assign_fields ar pin g w k" by blast
  from read_gdem_Inr[OF g] obtain l0 where
    l0: "var_landtype ifp = Some l0" "decimate k l0 = Inr (landtype g)" by blast
  have "sel_classif w = filter (\<lambda>x. x = 1) (concat (rows (landtype g)))"
    using select_water_Inr[OF w] by (blast intro: bool_index_self)
  then have n: "length (sel_classif w) = count_list (concat (rows (landtype g))) 1"
    by (simp add: length_filter_count)
  have "classification pc = replicate (length (sel_classif w)) 4"
    by (simp add: pc assign_fields_def map_replicate_const)
  moreover have "continuous_classification pc = replicate (length (sel_classif w)) 1"
    by (simp add: pc assign_fields_def map_replicate_const)
  ultimately show ?thesis using l0 n by auto
qed

theorem classification_remap_witness:
  "\<exists>pc. pixc_from_gdem exact_arith scenario_gdem (Inr scenario_donor) 2 = Inr pc \<and>
      classification pc = [4, 4] \<and> continuous_classification pc = [1, 1] \<and>
      height pc = [11, 32]"
proof -
  from classification_remap[OF scenario_pixc] obtain l0 ld where
    "var_landtype scenario_gdem = Some l0" "decimate 2 l0 = Inr ld" and
    c: "classification (assign_fields exact_arith scenario_donor
       \<lparr>landtype = Array2 3 [[0, 1, 0], [0, 0, 1]],
        elevation = Array2 3 [[10, 11, 12], [30, 31, 32]],
        lat = Array2 3 [[1, 1, 1], [3, 3, 3]],
        lon = Array2 3 [[5, 6, 7], [5, 6, 7]],
        cross_track_in = [100, 200, 300], r_spacing = 10, a_spacing = 5\<rparr>
       \<lparr>sel_A = 2, sel_R = 3, sel_classif = [1, 1], sel_elevation = [11, 32],
        sel_lat = [1, 3], sel_lon = [6, 7], sel_cross_track = [200, 300],
        sel_range_index = [1, 2], sel_azimuth_index = [0, 1]\<rparr> 2) =
       replicate (count_list (concat (rows ld)) 1) 4"
    by blast
  then have "ld = Array2 3 [[0, 1, 0], [0, 0, 1]]"
    by (simp add: scenario_gdem_def scenario_decimated)
  with c show ?thesis
    by (simp add: scenario_pixc assign_fields_def)
qed

text \<open>
  C6, as the code has it. In every cloud the conversion returns, \<open>pixel_area\<close> has one
  entry per retained pixel (per entry of \<open>latitude\<close>), and every entry is the same number:
  the entry 0.0 of \<^verbatim>\<open>np.zeros\<close> plus
  \<open>ground_spacing * azimuth_spacing * subsample_factor\<close>, the two spacings being the global
  attributes of the GDEM file and the product being computed from the left in the
  machine arithmetic of their stored types, as line 106 does; where adding to 0.0
  changes nothing, every entry is that product. This holds for every machine
  arithmetic.
\<close>

theorem pixel_area_constant:
  assumes "pixc_from_gdem ar ifp donor k = Inr pc"
  shows "\<exists>r a. attr_ground_spacing ifp = Some r \<and> attr_azimuth_spacing ifp = Some a \<and>
           (let c = np_float64 ar (np_mul_int ar (np_mul ar r a) k) in
              pixel_area pc = replicate (length (latitude pc)) (np_add ar (np_zero ar) c) \<and>
              (np_add ar (np_zero ar) c = c \<longrightarrow>
                 pixel_area pc = replicate (length (latitude pc)) c))"
proof -
  from pixc_from_gdem_Inr[OF assms] obtain g w pin where
    g: "read_gdem ifp k = Inr g" and pc: "pc = assign_fields ar pin g w k" by blast
  from read_gdem_Inr[OF g] have
    "attr_ground_spacing ifp = Some (r_spacing g)" "attr_azimuth_spacing ifp = Some (a_spacing g)"
    by auto
  moreover have "pixel_area pc =
      replicate (length (latitude pc))
        (np_add ar (np_zero ar)
           (np_float64 ar (np_mul_int ar (np_mul ar (r_spacing g) (a_spacing g)) k)))"
    by (simp add: pc assign_fields_def map_replicate_const)
  ultimately show ?thesis by (auto simp: Let_def)
qed

theorem pixel_area_constant_witness:
  "\<exists>pc. pixc_from_gdem int32_arith int32_gdem (Inr scenario_donor) 2 = Inr pc \<and>
      attr_ground_spacing int32_gdem = Some 100000 \<and>
      attr_azimuth_spacing int32_gdem = Some 100000 \<and>
      latitude pc = [1, 3] \<and> pixel_area pc = [- 1474836480, - 1474836480]"
proof -
  from pixel_area_constant[OF int32_pixc] obtain r a pc where
    ra: "attr_ground_spacing int32_gdem = Some r" "attr_azimuth_spacing int32_gdem = Some a"
    and pc: "pixc_from_gdem int32_arith int32_gdem (Inr scenario_donor) 2 = Inr pc"
    and pa: "pixel_area pc = replicate (length (latitude pc))
               (np_add int32_arith (np_zero int32_arith)
                  (np_float64 int32_arith (np_mul_int int32_arith (np_mul int32_arith r a) 2)))"
    by (auto simp: int32_pixc Let_def)
  have r: "r = 100000" "a = 100000" using ra by (simp_all add: int32_gdem_def)
  have l: "latitude pc = [1, 3]"
    using pc by (auto simp: int32_pixc assign_fields_def)
  have "pixel_area pc = [- 1474836480, - 1474836480]"
    unfolding pa r int32_product l by (simp add: int32_arith_def)
  with pc l ra r show ?thesis by auto
qed

text \<open>
  C6, as the claim states it, fails when the machine product is not the exact product:
  with both spacings stored as the 32-bit integer 100000 and the subsample factor 2, the
  product wraps around and both entries of \<open>pixel_area\<close> are -1474836480, not
  20000000000.
\<close>

theorem pixel_area_counterexample:
  "attr_ground_spacing int32_gdem = Some 100000 \<and>
   attr_azimuth_spacing int32_gdem = Some 100000 \<and>
   map_sum id latitude (pixc_from_gdem int32_arith int32_gdem (Inr scenario_donor) 2) =
     Inr [1, 3] \<and>
   map_sum id pixel_area (pixc_from_gdem int32_arith int32_gdem (Inr scenario_donor) 2) =
     Inr [- 1474836480, - 1474836480] \<and>
   (- 1474836480 :: real) \<noteq> 100000 * 100000 * 2"
proof -
  have a: "attr_ground_spacing int32_gdem = Some 100000"
    "attr_azimuth_spacing int32_gdem = Some 100000"
    by (simp_all add: int32_gdem_def)
  have l: "map_sum id latitude (pixc_from_gdem int32_arith int32_gdem (Inr scenario_donor) 2) =
     Inr [1, 3]"
    by (simp add: int32_pixc assign_fields_def)
  have "map_sum id pixel_area (pixc_from_gdem int32_arith int32_gdem (Inr scenario_donor) 2) =
     Inr (replicate 2 (np_add int32_arith (np_zero int32_arith) (np_float64 int32_arith
       (np_mul_int int32_arith (np_mul int32_arith 100000 100000) 2))))"
    by (simp add: int32_pixc assign_fields_def numeral_2_eq_2)
  then have p: "map_sum id pixel_area
      (pixc_from_gdem int32_arith int32_gdem (Inr scenario_donor) 2) =
     Inr [- 1474836480, - 1474836480]"
    unfolding int32_product by (simp add: int32_arith_def numeral_2_eq_2)
  have "(- 1474836480 :: real) \<noteq> 100000 * 100000 * 2" by simp
  with a l p show ?thesis by blast
qed

text \<open>
  C7. For a grid array of shape \<open>A \<times> R\<close> and a subsample factor \<open>k \<ge> 1\<close>, the decimation
  \<^verbatim>\<open>a[::k, :]\<close> returns an array of shape \<open>ceil(A / k) \<times> R\<close> whose row \<open>i\<close> is row \<open>i * k\<close>
  of the original, for every \<open>i\<close> below \<open>ceil(A / k)\<close>; and the arrays \<open>landtype\<close>,
  \<open>elevation\<close>, \<open>lat\<close> and \<open>lon\<close> that the converter works on are this decimation of the
  file's variables.
\<close>

theorem decimation_rows:
  assumes "1 \<le> k" and "np_shape a = (A, R)"
  shows "(\<exists>d. decimate k a = Inr d \<and>
               np_shape d = (nat \<lceil>real A / real_of_int k\<rceil>, R) \<and>
               (\<forall>i < nat \<lceil>real A / real_of_int k\<rceil>. rows d ! i = rows a ! (i * nat k))) \<and>
         (\<forall>g. read_gdem ifp k = Inr g \<longrightarrow>
              map_option (decimate k) (var_landtype ifp) = Some (Inr (landtype g)) \<and>
              map_option (decimate k) (var_elevation ifp) = Some (Inr (elevation g)) \<and>
              map_option (decimate k) (var_latitude ifp) = Some (Inr (lat g)) \<and>
              map_option (decimate k) (var_longitude ifp) = Some (Inr (lon g)))"
proof (intro conjI allI impI)
  define n where "n = nat k"
  have n: "0 < n" and k: "real_of_int k = real n" using assms(1) by (simp_all add: n_def)
  have A: "length (rows a) = A" and R: "ncols a = R" using assms(2) by (simp_all add: np_shape_def)
  have len: "length (take_every n (rows a)) = nat \<lceil>real A / real_of_int k\<rceil>"
    using n by (simp add: length_take_every ceil_div k A)
  have "decimate k a = Inr (Array2 R (take_every n (rows a)))"
    using decimate_pos[OF assms(1), of a] by (simp add: n_def R)
  moreover have "np_shape (Array2 R (take_every n (rows a))) = (nat \<lceil>real A / real_of_int k\<rceil>, R)"
    by (simp add: np_shape_def len)
  moreover have "\<forall>i < nat \<lceil>real A / real_of_int k\<rceil>.
       rows (Array2 R (take_every n (rows a))) ! i = rows a ! (i * nat k)"
    using nth_take_every[OF n, of _ "rows a"] len by (auto simp: n_def)
  ultimately show "\<exists>d. decimate k a = Inr d \<and>
               np_shape d = (nat \<lceil>real A / real_of_int k\<rceil>, R) \<and>
               (\<forall>i < nat \<lceil>real A / real_of_int k\<rceil>. rows d ! i = rows a ! (i * nat k))"
    by blast
next
  fix g assume "read_gdem ifp k = Inr g"
  from read_gdem_Inr[OF this] show
    "map_option (decimate k) (var_landtype ifp) = Some (Inr (landtype g))"
    "map_option (decimate k) (var_elevation ifp) = Some (Inr (elevation g))"
    "map_option (decimate k) (var_latitude ifp) = Some (Inr (lat g))"
    "map_option (decimate k) (var_longitude ifp) = Some (Inr (lon g))"
    by auto
qed

theorem decimation_rows_witness:
  "(1::int) \<le> 2 \<and> np_shape scenario_landtype = (4, 3) \<and>
   decimate 2 scenario_landtype = Inr (Array2 3 [[0, 1, 0], [0, 0, 1]]) \<and>
   nat \<lceil>real 4 / real_of_int 2\<rceil> = 2 \<and>
   (\<exists>g. read_gdem scenario_gdem 2 = Inr g \<and>
        map_option (decimate 2) (var_landtype scenario_gdem) = Some (Inr (landtype g)))"
proof -
  have h: "(1::int) \<le> 2" "np_shape scenario_landtype = (4, 3)"
    by (simp_all add: np_shape_def scenario_landtype_def)
  have d: "decimate 2 scenario_landtype = Inr (Array2 3 [[0, 1, 0], [0, 0, 1]])"
    by (simp add: decimate_def py_slice_step_def bindE_def scenario_landtype_def eval_nat_numeral)
  from decimation_rows[OF h, of scenario_gdem] scenario_read d h show ?thesis
    by simp
qed

section \<open>Properties of statement sequences and of the stages\<close>

lemmas io_defs = seq_def emit_def lift_def reads_def effect_def return_io_def

lemma seqE:
  assumes "seq m f fs = (r, fs', ev)"
  obtains (raised) e where "m fs = (Inl e, fs', ev)" "r = Inl e"
  | (went_on) a fs1 ev1 ev2 where "m fs = (Inr a, fs1, ev1)" "f a fs1 = (r, fs', ev2)" "ev = ev1 @ ev2"
  using assms unfolding seq_def
  by (auto split: prod.splits sum.splits)

lemma every_eventD: "every_event P m \<Longrightarrow> m fs = (r, fs', ev) \<Longrightarrow> list_all P ev"
  by (auto simp: every_event_def dest: spec[of _ fs])

lemma every_event_seq:
  "every_event P m \<Longrightarrow> (\<And>a. every_event P (f a)) \<Longrightarrow> every_event P (seq m f)"
  unfolding every_event_def seq_def
  by (auto split: prod.splits sum.splits) (metis snd_conv)+

lemma every_event_emit: "P e \<Longrightarrow> every_event P (emit e)"
  by (simp add: every_event_def emit_def)

lemma every_event_pure:
  "every_event P (return_io a)" "every_event P (lift r)" "every_event P (reads g)"
  "every_event P (effect h)"
  by (auto simp: every_event_def return_io_def lift_def reads_def effect_def split: sum.splits)

lemma every_event_if:
  "(b \<Longrightarrow> every_event P m) \<Longrightarrow> (\<not> b \<Longrightarrow> every_event P n) \<Longrightarrow> every_event P (if b then m else n)"
  by simp

lemma every_event_mono: "every_event P m \<Longrightarrow> (\<And>e. P e \<Longrightarrow> Q e) \<Longrightarrow> every_event Q m"
  by (auto simp: every_event_def list_all_iff)

lemmas every_event_intros = every_event_seq every_event_emit every_event_pure every_event_if

lemma ensure_dir_quiet: "every_event quiet (ensure_dir env d)"
  unfolding ensure_dir_def by (intro every_event_intros) (simp_all add: quiet_def)

lemma resolve_paths_quiet: "every_event quiet (resolve_paths env args f)"
  unfolding resolve_paths_def Let_def
  by (intro every_event_intros ensure_dir_quiet) (simp_all add: quiet_def)

lemma make_pixc_events:
  "every_event (\<lambda>e. e = MakePixcFromGdem g pf out k) (make_pixc_from_gdem env g pf out k)"
  unfolding make_pixc_from_gdem_def Let_def
  by (intro every_event_intros) (auto split: prod.splits intro: every_event_intros)

lemma reference_branch_events:
  "every_event (\<lambda>e. is_print e \<or> (\<exists>g. e = MakePixcFromGdem g (pixc_file p) (gdem_pixc_path args p) 2))
     (reference_branch env args p)"
  unfolding reference_branch_def
  by (intro every_event_intros every_event_mono[OF make_pixc_events]) auto

lemma execute_events: "every_event (\<lambda>e. is_print e \<or> is_extraction e) (execute env cmd)"
  by (auto simp: every_event_def execute_def list_all_iff split: prod.splits option.splits)

lemma extraction_events: "every_event (\<lambda>e. is_print e \<or> is_extraction e) (extraction env args p)"
  unfolding extraction_def Let_def
  by (intro every_event_intros execute_events) auto

lemma call_pixc_to_shp_events:
  "every_event (\<lambda>e. is_print e \<or> is_export e) (call_pixc_to_shp env a b c d vs g)"
  unfolding call_pixc_to_shp_def by (intro every_event_intros) auto

lemma shapefiles_events: "every_event (\<lambda>e. is_print e \<or> is_export e) (shapefiles env args p)"
  unfolding shapefiles_def Let_def
  by (intro every_event_intros call_pixc_to_shp_events) auto

lemma write_annotation_file_events:
  "every_event is_annotation (write_annotation_file env a pf g pv pvg)"
  unfolding write_annotation_file_def Let_def
  by (intro every_event_intros) auto

lemma process_job_factor: "every_event factor_two (process_job env args f)"
  unfolding process_job_def
  apply (intro every_event_seq)
   apply (rule every_event_mono[OF resolve_paths_quiet])
   apply (auto simp: quiet_def factor_two_def split: event.splits)[1]
  apply (rule every_event_mono[OF reference_branch_events])
   apply (auto simp: factor_two_def split: event.splits)[1]
  apply (auto split: option.splits intro!: every_event_intros
      every_event_mono[OF extraction_events] every_event_mono[OF shapefiles_events]
      every_event_mono[OF write_annotation_file_events]
      simp: factor_two_def split: event.splits)
  done

lemma main_loop_every_event:
  assumes "\<And>f. every_event P (process_job env args f)"
  shows "every_event P (main_loop env args files)"
proof -
  have "list_all P (snd (snd (main_loop env args files fs)))" for fs
  proof (induction files arbitrary: fs)
    case Nil
    then show ?case by simp
  next
    case (Cons f files)
    obtain r fs1 ev where pj: "process_job env args f fs = (r, fs1, ev)"
      by (cases "process_job env args f fs") auto
    have ev: "list_all P ev" using every_eventD[OF assms pj] .
    obtain r2 fs2 ev2 where ml: "main_loop env args files fs1 = (r2, fs2, ev2)"
      by (cases "main_loop env args files fs1") auto
    have ev2: "list_all P ev2" using Cons.IH[of fs1] ml by simp
    show ?case using pj ml ev ev2
      by (simp split: sum.splits flow.splits)
  qed
  then show ?thesis by (simp add: every_event_def)
qed

lemma main_factor: "every_event factor_two (main env args)"
  unfolding main_def
  by (intro every_event_intros main_loop_every_event process_job_factor)
     (auto simp: factor_two_def split: flow.splits intro!: every_event_intros)

lemma main_loop_append:
  "main_loop env args done fs0 = (Inr Next, fs, ev0) \<Longrightarrow>
   main_loop env args (done @ rest) fs0 =
     (case main_loop env args rest fs of (r, fs2, ev2) \<Rightarrow> (r, fs2, ev0 @ ev2))"
proof (induction "done" arbitrary: fs0 ev0)
  case Nil
  then show ?case by (auto split: prod.splits)
next
  case (Cons f "done")
  obtain r fs1 ev where pj: "process_job env args f fs0 = (r, fs1, ev)"
    by (cases "process_job env args f fs0") auto
  obtain r2 fs2 ev2 where ml: "main_loop env args done fs1 = (r2, fs2, ev2)"
    by (cases "main_loop env args done fs1") auto
  from Cons.prems pj ml have r: "r = Inr Next" and r2: "r2 = Inr Next" "fs2 = fs" "ev0 = ev @ ev2"
    by (auto split: sum.splits flow.splits)
  from Cons.IH[of fs1 ev2] ml r2 have
    "main_loop env args (done @ rest) fs1 =
       (case main_loop env args rest fs of (r, fs2, ev3) \<Rightarrow> (r, fs2, ev2 @ ev3))" by simp
  then show ?case using pj r r2 by (simp split: prod.splits)
qed

lemma main_loop_stops:
  assumes "main_loop env args done fs0 = (Inr Next, fs, ev0)"
    and "process_job env args f fs = (r, fs', ev)" and "r \<noteq> Inr Next"
  shows "main_loop env args (done @ f # rest) fs0 = (r, fs', ev0 @ ev)"
  using main_loop_append[OF assms(1), of "f # rest"] assms(2,3)
  by (auto split: sum.splits flow.splits)

lemma no_extraction_mem:
  assumes "list_all P ev" and "\<And>e. P e \<Longrightarrow> \<not> is_extraction e"
  shows "Execute cmd rc \<notin> set ev"
proof
  assume "Execute cmd rc \<in> set ev"
  with assms(1) have "P (Execute cmd rc)" by (simp add: list_all_iff)
  from assms(2)[OF this] show False by simp
qed

lemma main_of_loop:
  assumes "main_loop env args (rdf_files env args fs) fs = (r, fs', ev)"
  shows "fst (main env args fs) = (case r of Inl e \<Rightarrow> Inl e | Inr fl \<Rightarrow> Inr ()) \<and>
         fst (snd (main env args fs)) = fs'"
  using assms unfolding main_def io_defs
  by (auto split: sum.splits prod.splits flow.splits)

lemma write_annotation_file_result:
  assumes "write_annotation_file env a pf gp pv pvg fs = (Inr u, fs', ev)"
  shows "ev = [WriteAnnotation a
                 ([''pixc file = '' @ pf,
                   ''gdem pixc file = '' @ (case gp of None \<Rightarrow> ''None'' | Some g \<Rightarrow> g),
                   ''pixcvec file = '' @ pv] @
                  (case pvg of None \<Rightarrow> [] | Some v \<Rightarrow> [''pixcvec file from gdem = '' @ v]))] \<and>
         write_text env a
           ([''pixc file = '' @ pf,
             ''gdem pixc file = '' @ (case gp of None \<Rightarrow> ''None'' | Some g \<Rightarrow> g),
             ''pixcvec file = '' @ pv] @
            (case pvg of None \<Rightarrow> [] | Some v \<Rightarrow> [''pixcvec file from gdem = '' @ v])) fs = Inr fs'"
  using assms unfolding write_annotation_file_def io_defs Let_def fmt_s_def
  by (auto split: sum.splits option.splits)

lemma reference_branch_result:
  assumes "reference_branch env args p fs = (Inr (Some (g, v)), fs', ev)"
  shows "(nogdem args \<and> g = None \<and> v = None) \<or>
         (\<not> nogdem args \<and> g = Some (gdem_pixc_path args p) \<and> v = Some (output_pixcvec_gdem args p))"
  using assms unfolding reference_branch_def io_defs
  by (auto split: sum.splits prod.splits if_splits)

lemma process_job_Next:
  assumes "process_job env args f fs = (Inr Next, fs', ev)"
  shows "\<exists>p pre. fst (resolve_paths env args f fs) = Inr p \<and>
           ev = pre @ [WriteAnnotation (river_ann_file p)
                  ([''pixc file = '' @ pixc_file p,
                    ''gdem pixc file = '' @
                       (if nogdem args then ''None'' else gdem_pixc_path args p),
                    ''pixcvec file = '' @ output_pixcvec p] @
                   (if nogdem args then []
                    else [''pixcvec file from gdem = '' @ output_pixcvec_gdem args p]))] \<and>
           list_all (\<lambda>e. \<not> is_annotation e) pre"
  using assms unfolding process_job_def
proof (cases rule: seqE)
  case (went_on p fs1 ev1 ev2)
  have n1: "list_all (\<lambda>e. \<not> is_annotation e) ev1"
    using every_eventD[OF resolve_paths_quiet went_on(1)]
    by (auto simp: list_all_iff quiet_def)
  from went_on(2) show ?thesis
  proof (cases rule: seqE)
    case rb: (went_on b fs2 ev2a ev2b)
    have n2: "list_all (\<lambda>e. \<not> is_annotation e) ev2a"
      using every_eventD[OF reference_branch_events rb(1)] by (auto simp: list_all_iff)
    from rb(2) obtain g v where b: "b = Some (g, v)"
      by (cases b) (auto simp: return_io_def)
    note gv = reference_branch_result[OF rb(1)[unfolded b]]
    from rb(2) b have
      "seq (extraction env args p) (\<lambda>_.
         seq (shapefiles env args p) (\<lambda>_.
         seq (write_annotation_file env (river_ann_file p) (pixc_file p) g
                (output_pixcvec p) v) (\<lambda>_. return_io Next))) fs2 = (Inr Next, fs', ev2b)"
      by simp
    then show ?thesis
    proof (cases rule: seqE)
      case ex: (went_on u3 fs3 ev3 ev3r)
      have n3: "list_all (\<lambda>e. \<not> is_annotation e) ev3"
        using every_eventD[OF extraction_events ex(1)] by (auto simp: list_all_iff)
      from ex(2) show ?thesis
      proof (cases rule: seqE)
        case sh: (went_on u4 fs4 ev4 ev4r)
        have n4: "list_all (\<lambda>e. \<not> is_annotation e) ev4"
          using every_eventD[OF shapefiles_events sh(1)] by (auto simp: list_all_iff)
        from sh(2) show ?thesis
        proof (cases rule: seqE)
          case wa: (went_on u5 fs5 ev5 ev5r)
          from wa(2) have e5r: "ev5r = []" by (simp add: return_io_def)
          from write_annotation_file_result[OF wa(1)] gv have
            "ev5 = [WriteAnnotation (river_ann_file p)
                  ([''pixc file = '' @ pixc_file p,
                    ''gdem pixc file = '' @
                       (if nogdem args then ''None'' else gdem_pixc_path args p),
                    ''pixcvec file = '' @ output_pixcvec p] @
                   (if nogdem args then []
                    else [''pixcvec file from gdem = '' @ output_pixcvec_gdem args p]))]"
            by auto
          then show ?thesis
            using went_on(1,3) rb(3) ex(3) sh(3) wa(3) e5r n1 n2 n3 n4
            by (intro exI[of _ p] exI[of _ "ev1 @ ev2a @ ev3 @ ev4"]) simp
        qed simp
      qed simp
    qed simp
  qed simp
qed simp










lemma extraction_raised:
  assumes "extraction env args p fs = (Inl e, fs', ev)"
  shows "Execute cmd 0 \<notin> set ev"
  using assms unfolding extraction_def Let_def io_defs execute_def
  by (auto split: option.splits sum.splits prod.splits if_splits)

lemma call_pixc_to_shp_total:
  assumes "\<forall>i out la lo vs g s. \<exists>s'. pixc_to_shp env i out la lo vs g s = Inr s'"
  shows "\<exists>s' ev. call_pixc_to_shp env i out la lo vs g s = (Inr (), s', ev)"
proof -
  from assms obtain s' where "pixc_to_shp env i out la lo vs g s = Inr s'" by blast
  then show ?thesis by (simp add: call_pixc_to_shp_def io_defs)
qed

lemma shapefiles_total:
  assumes "\<forall>i out la lo vs g s. \<exists>s'. pixc_to_shp env i out la lo vs g s = Inr s'"
  shows "\<exists>s' ev. shapefiles env args p s = (Inr (), s', ev)"
proof (cases "noshp args")
  case True
  then show ?thesis by (simp add: shapefiles_def return_io_def)
next
  case False
  note c = call_pixc_to_shp_total[OF assms]
  obtain s1 ev1 where 1: "call_pixc_to_shp env (output_riverobs p)
       (py_replace ''.nc'' ''_node.shp'' (output_riverobs p)) ''latitude'' ''longitude''
       [''time'', ''height'', ''width'', ''area_total'', ''node_id'', ''reach_id'']
       (Some ''nodes'') s = (Inr (), s1, ev1)"
    using c by blast
  obtain s2 ev2 where 2: "call_pixc_to_shp env (output_riverobs p)
       (py_replace ''.nc'' ''_reach.shp'' (output_riverobs p)) ''p_latitud'' ''p_longitud''
       [''reach_id'', ''width'', ''height'', ''slope'', ''area_total'']
       (Some ''reaches'') s1 = (Inr (), s2, ev2)"
    using c by blast
  obtain s3 ev3 where 3: "call_pixc_to_shp env (output_pixcvec p)
       (py_replace ''.nc'' ''.shp'' (output_pixcvec p))
       ''latitude_vectorproc'' ''longitude_vectorproc''
       [''height_vectorproc'', ''node_index'', ''reach_index'', ''azimuth_index'', ''range_index'']
       None s2 = (Inr (), s3, ev3)"
    using c by blast
  show ?thesis
    using False by (simp add: shapefiles_def Let_def seq_def emit_def 1 2 3)
qed

lemma write_annotation_file_total:
  assumes "\<forall>a ls s. \<exists>s'. write_text env a ls s = Inr s'"
  shows "\<exists>s' ev. write_annotation_file env a pf gp pv pvg s = (Inr (), s', ev)"
proof -
  from assms obtain s' where "write_text env a
      ([''pixc file = '' @ pf, ''gdem pixc file = '' @ fmt_s gp, ''pixcvec file = '' @ pv] @
       (case pvg of None \<Rightarrow> [] | Some g \<Rightarrow> [''pixcvec file from gdem = '' @ g])) s = Inr s'"
    by blast
  then show ?thesis by (simp add: write_annotation_file_def io_defs Let_def)
qed

lemma process_job_after_extraction:
  assumes pj: "process_job env args f fs = (r, fs', ev)"
    and mem: "Execute cmd 0 \<in> set ev"
    and shp: "\<forall>i out la lo vs g s. \<exists>s'. pixc_to_shp env i out la lo vs g s = Inr s'"
    and wt: "\<forall>a ls s. \<exists>s'. write_text env a ls s = Inr s'"
  shows "r = Inr Next"
  using pj unfolding process_job_def
proof (cases rule: seqE)
  case (raised e)
  from every_eventD[OF resolve_paths_quiet raised(1)] have "Execute cmd 0 \<notin> set ev"
    by (rule no_extraction_mem) (auto simp: quiet_def)
  with mem show ?thesis by simp
next
  case (went_on p fs1 ev1 ev2)
  have m1: "Execute cmd 0 \<notin> set ev1"
    using every_eventD[OF resolve_paths_quiet went_on(1)]
    by (rule no_extraction_mem) (auto simp: quiet_def)
  from went_on(2) show ?thesis
  proof (cases rule: seqE)
    case (raised e)
    from every_eventD[OF reference_branch_events raised(1)] have "Execute cmd 0 \<notin> set ev2"
      by (rule no_extraction_mem) auto
    with mem went_on(3) m1 show ?thesis by simp
  next
    case inner: (went_on b fs2 ev2a ev2b)
    have m2: "Execute cmd 0 \<notin> set ev2a"
      using every_eventD[OF reference_branch_events inner(1)]
      by (rule no_extraction_mem) auto
    show ?thesis
    proof (cases b)
      case None
      with inner(2) have "ev2b = []" by (simp add: return_io_def)
      with mem went_on(3) inner(3) m1 m2 show ?thesis by simp
    next
      case (Some gv)
      obtain g v where gv: "gv = (g, v)" by (cases gv) auto
      from inner(2) Some gv have
        "seq (extraction env args p) (\<lambda>_.
           seq (shapefiles env args p) (\<lambda>_.
           seq (write_annotation_file env (river_ann_file p) (pixc_file p) g
                  (output_pixcvec p) v) (\<lambda>_. return_io Next))) fs2 = (r, fs', ev2b)"
        by simp
      then show ?thesis
      proof (cases rule: seqE)
        case (raised e)
        from extraction_raised[OF raised(1)] mem went_on(3) inner(3) m1 m2
        show ?thesis by simp
      next
        case ex: (went_on u fs3 ev3 ev4)
        obtain s4 e4 where sh: "shapefiles env args p fs3 = (Inr (), s4, e4)"
          using shapefiles_total[OF shp] by blast
        obtain s5 e5 where wa: "write_annotation_file env (river_ann_file p) (pixc_file p) g
                  (output_pixcvec p) v s4 = (Inr (), s5, e5)"
          using write_annotation_file_total[OF wt] by blast
        from ex(2) show ?thesis
          by (simp add: seq_def sh wa return_io_def)
      qed
    qed
  qed
qed

lemma extraction_result:
  assumes "extraction_command env args p = Inr cmd"
    and "popen env cmd fs = (out_lines, read_error, rc, fs3)"
  shows "extraction env args p fs =
           (case read_error of
              Some e \<Rightarrow> Inl e
            | None \<Rightarrow> if rc \<noteq> 0 then Inl (CalledProcessError rc cmd) else Inr (),
            fs3,
            Print (''> executing: '' @ cmd) # map Print out_lines @
            (case read_error of
               Some e \<Rightarrow> []
             | None \<Rightarrow> Execute cmd rc #
                 (if rc \<noteq> 0 then [] else [Print ''== Execution OK'', Print []])))"
  using assms
  by (simp add: extraction_def io_defs execute_def split: option.splits)

section \<open>The sample runs, evaluated\<close>

lemma split_45N: "pixc_ann_split ''/in/pixc_annotation_001_023_45N.rdf'' = [''pixc'', ''annotation'', ''001'', ''023'', ''45N'']"
  by (simp add: pixc_ann_split_def os_path_basename_def)

lemma demo_resolve_45N:
  "resolve_paths (demo_env rc) demo_args ''/in/pixc_annotation_001_023_45N.rdf'' fs =
     (Inr \<lparr>ann_cfg = [''l2pixc file'' \<mapsto> ''/in/pixc.nc'', ''true GDEM file'' \<mapsto> ''/in/gdem.nc''],
           num_cycle = ''001'', num_orbit = ''023'', lat_tile = ''45N'',
           river_dir = ''/out/pixc'', pixc_file = ''/in/pixc.nc'',
           output_riverobs = ''/out/pixc/rivertile_001_023_45N.nc'',
           output_pixcvec = ''/out/pixc/pixcvec_001_023_45N.nc'',
           river_ann_file = ''/out/river-annotation_001_023_45N.rdf''\<rparr>,
      fs,
      [Print ''> Dealing with PixC annotation file /in/pixc_annotation_001_023_45N.rdf'',
       Print ''Cycle number = 001 - Orbit number = 023 - Tile ref = 45N'',
       Print []])"
  by (simp add: resolve_paths_def io_defs split_45N py_index_def demo_env_def demo_args_def
      ensure_dir_def os_path_join_def dict_get_def tile_name_def)

lemma demo_gate_45N:
  "reference_branch (demo_env rc) demo_args paths_45N demo_outputs =
     (Inr None, demo_outputs, [Print ''--> Output files already exist; EXIT''])"
  by (simp add: reference_branch_def io_defs outputs_exist_def demo_env_def demo_args_def
      demo_outputs_def paths_45N_def)

lemma demo_skip:
  "process_job (demo_env 0) demo_args ''/in/pixc_annotation_001_023_45N.rdf'' demo_outputs =
     (Inr Return, demo_outputs,
      [Print ''> Dealing with PixC annotation file /in/pixc_annotation_001_023_45N.rdf'',
       Print ''Cycle number = 001 - Orbit number = 023 - Tile ref = 45N'',
       Print [],
       Print ''--> Output files already exist; EXIT''])"
  by (simp add: process_job_def seq_def demo_resolve_45N[folded paths_45N_def]
      demo_gate_45N return_io_def)

lemma demo_rdf_files:
  "rdf_files (demo_env rc) demo_args demo_outputs = demo_jobs"
  "rdf_files (demo_env rc) demo_args {} = demo_jobs"
  by (simp_all add: rdf_files_def demo_env_def demo_args_def os_path_join_def demo_outputs_def)

lemma fmt_d_2: "fmt_d 2 = ''2''"
  by code_simp

lemma demo_main_skip:
  "main (demo_env 0) demo_args demo_outputs =
     (Inr (), demo_outputs,
      [Print ''===== l2pixc_to_rivertile = BEGIN ====='', Print [],
       Print ''> 2 PixC annotation file(s) to deal with'', Print [],
       Print ''> Dealing with PixC annotation file /in/pixc_annotation_001_023_45N.rdf'',
       Print ''Cycle number = 001 - Orbit number = 023 - Tile ref = 45N'',
       Print [],
       Print ''--> Output files already exist; EXIT''])"
proof -
  have "main_loop (demo_env 0) demo_args demo_jobs demo_outputs =
     (Inr Return, demo_outputs,
      [Print ''> Dealing with PixC annotation file /in/pixc_annotation_001_023_45N.rdf'',
       Print ''Cycle number = 001 - Orbit number = 023 - Tile ref = 45N'',
       Print [],
       Print ''--> Output files already exist; EXIT''])"
    by (simp add: demo_jobs_def demo_skip)
  moreover have "length demo_jobs = 2" "demo_jobs \<noteq> []" by (simp_all add: demo_jobs_def)
  ultimately show ?thesis
    by (simp add: main_def io_defs demo_rdf_files fmt_d_2)
qed

lemma demo_make_pixc:
  "make_pixc_from_gdem (demo_env rc) ''/in/gdem.nc'' ''/in/pixc.nc''
       ''/out/gdem/pixel_cloud_gdem001-023_45N.nc'' 2 {} =
     (Inr (), {''/out/gdem/pixel_cloud_gdem001-023_45N.nc''},
      [MakePixcFromGdem ''/in/gdem.nc'' ''/in/pixc.nc''
         ''/out/gdem/pixel_cloud_gdem001-023_45N.nc'' 2])"
  by (simp add: make_pixc_from_gdem_def io_defs demo_env_def scenario_pixc os_path_split_def
      os_path_basename_def os_path_join_def Let_def)

lemma demo_reference_45N:
  "reference_branch (demo_env rc) demo_args paths_45N {} =
     (Inr (Some (Some ''/out/gdem/pixel_cloud_gdem001-023_45N.nc'',
                 Some ''/out/gdem/pixcvec_001_023_45N.nc'')),
      {''/out/gdem/pixel_cloud_gdem001-023_45N.nc''},
      [Print ''/in/gdem.nc'',
       MakePixcFromGdem ''/in/gdem.nc'' ''/in/pixc.nc''
         ''/out/gdem/pixel_cloud_gdem001-023_45N.nc'' 2])"
proof -
  have g: "gdem_pixc_path demo_args paths_45N = ''/out/gdem/pixel_cloud_gdem001-023_45N.nc''"
    and v: "output_pixcvec_gdem demo_args paths_45N = ''/out/gdem/pixcvec_001_023_45N.nc''"
    by (simp_all add: gdem_pixc_path_def output_pixcvec_gdem_def river_dir_gdem_def demo_args_def
        paths_45N_def os_path_join_def tile_name_def)
  have e: "\<not> outputs_exist (demo_env rc) demo_args paths_45N {}"
    by (simp add: outputs_exist_def demo_env_def)
  have n: "\<not> nogdem demo_args" by (simp add: demo_args_def)
  have k: "dict_get (ann_cfg paths_45N) ''true GDEM file'' = Inr ''/in/gdem.nc''"
    and pf: "pixc_file paths_45N = ''/in/pixc.nc''"
    by (simp_all add: dict_get_def paths_45N_def)
  show ?thesis
    by (simp add: reference_branch_def n seq_def reads_def e lift_def k emit_def g v pf
        demo_make_pixc return_io_def)
qed

lemma demo_extraction_45N:
  "extraction (demo_env rc) demo_args paths_45N fs =
     (if rc \<noteq> 0 then Inl (CalledProcessError rc demo_cmd) else Inr (), fs,
      [Print (''> executing: '' @ demo_cmd), Print ''running'', Execute demo_cmd rc] @
      (if rc \<noteq> 0 then [] else [Print ''== Execution OK'', Print []]))"
  by (simp add: extraction_def extraction_command_def bindE_def io_defs execute_def demo_env_def
      demo_args_def paths_45N_def dict_get_def os_path_join_def demo_cmd_def Let_def)

lemma demo_shapefiles_45N:
  "shapefiles (demo_env rc) demo_args paths_45N fs =
     (Inr (),
      insert ''/out/pixc/pixcvec_001_023_45N.shp''
        (insert ''/out/pixc/rivertile_001_023_45N_reach.shp''
          (insert ''/out/pixc/rivertile_001_023_45N_node.shp'' fs)),
      [Print ''> Converting .nc files to shapefiles...'',
       Print ''. Node shapefile'',
       PixcToShp ''/out/pixc/rivertile_001_023_45N.nc'' ''/out/pixc/rivertile_001_023_45N_node.shp''
         ''latitude'' ''longitude''
         [''time'', ''height'', ''width'', ''area_total'', ''node_id'', ''reach_id''] (Some ''nodes''),
       Print ''. Reach shapefile'',
       PixcToShp ''/out/pixc/rivertile_001_023_45N.nc'' ''/out/pixc/rivertile_001_023_45N_reach.shp''
         ''p_latitud'' ''p_longitud''
         [''reach_id'', ''width'', ''height'', ''slope'', ''area_total''] (Some ''reaches''),
       Print ''. PIXCVec shapefile'',
       PixcToShp ''/out/pixc/pixcvec_001_023_45N.nc'' ''/out/pixc/pixcvec_001_023_45N.shp''
         ''latitude_vectorproc'' ''longitude_vectorproc''
         [''height_vectorproc'', ''node_index'', ''reach_index'', ''azimuth_index'', ''range_index'']
         None])"
proof -
  have r: "py_replace ''.nc'' ''_node.shp'' ''/out/pixc/rivertile_001_023_45N.nc'' =
             ''/out/pixc/rivertile_001_023_45N_node.shp''"
    "py_replace ''.nc'' ''_reach.shp'' ''/out/pixc/rivertile_001_023_45N.nc'' =
             ''/out/pixc/rivertile_001_023_45N_reach.shp''"
    "py_replace ''.nc'' ''.shp'' ''/out/pixc/pixcvec_001_023_45N.nc'' =
             ''/out/pixc/pixcvec_001_023_45N.shp''"
    by (simp_all add: py_replace.simps)
  have p: "output_riverobs paths_45N = ''/out/pixc/rivertile_001_023_45N.nc''"
    "output_pixcvec paths_45N = ''/out/pixc/pixcvec_001_023_45N.nc''"
    by (simp_all add: paths_45N_def)
  show ?thesis
    by (simp add: shapefiles_def call_pixc_to_shp_def io_defs p r demo_env_def demo_args_def Let_def)
qed

lemma demo_annotation_45N:
  "write_annotation_file (demo_env rc) ''/out/river-annotation_001_023_45N.rdf'' ''/in/pixc.nc''
       (Some ''/out/gdem/pixel_cloud_gdem001-023_45N.nc'') ''/out/pixc/pixcvec_001_023_45N.nc''
       (Some ''/out/gdem/pixcvec_001_023_45N.nc'') fs =
     (Inr (), insert ''/out/river-annotation_001_023_45N.rdf'' fs,
      [WriteAnnotation ''/out/river-annotation_001_023_45N.rdf''
         [''pixc file = /in/pixc.nc'',
          ''gdem pixc file = /out/gdem/pixel_cloud_gdem001-023_45N.nc'',
          ''pixcvec file = /out/pixc/pixcvec_001_023_45N.nc'',
          ''pixcvec file from gdem = /out/gdem/pixcvec_001_023_45N.nc'']])"
  by (simp add: write_annotation_file_def io_defs fmt_s_def demo_env_def Let_def)

lemma demo_success_45N:
  "process_job (demo_env 0) demo_args ''/in/pixc_annotation_001_023_45N.rdf'' {} =
     (Inr Next,
      {''/out/river-annotation_001_023_45N.rdf'', ''/out/pixc/pixcvec_001_023_45N.shp'',
       ''/out/pixc/rivertile_001_023_45N_reach.shp'', ''/out/pixc/rivertile_001_023_45N_node.shp'',
       ''/out/gdem/pixel_cloud_gdem001-023_45N.nc''},
      [Print ''> Dealing with PixC annotation file /in/pixc_annotation_001_023_45N.rdf'',
       Print ''Cycle number = 001 - Orbit number = 023 - Tile ref = 45N'',
       Print [],
       Print ''/in/gdem.nc'',
       MakePixcFromGdem ''/in/gdem.nc'' ''/in/pixc.nc''
         ''/out/gdem/pixel_cloud_gdem001-023_45N.nc'' 2,
       Print (''> executing: '' @ demo_cmd), Print ''running'', Execute demo_cmd 0,
       Print ''== Execution OK'', Print [],
       Print ''> Converting .nc files to shapefiles...'',
       Print ''. Node shapefile'',
       PixcToShp ''/out/pixc/rivertile_001_023_45N.nc'' ''/out/pixc/rivertile_001_023_45N_node.shp''
         ''latitude'' ''longitude''
         [''time'', ''height'', ''width'', ''area_total'', ''node_id'', ''reach_id''] (Some ''nodes''),
       Print ''. Reach shapefile'',
       PixcToShp ''/out/pixc/rivertile_001_023_45N.nc'' ''/out/pixc/rivertile_001_023_45N_reach.shp''
         ''p_latitud'' ''p_longitud''
         [''reach_id'', ''width'', ''height'', ''slope'', ''area_total''] (Some ''reaches''),
       Print ''. PIXCVec shapefile'',
       PixcToShp ''/out/pixc/pixcvec_001_023_45N.nc'' ''/out/pixc/pixcvec_001_023_45N.shp''
         ''latitude_vectorproc'' ''longitude_vectorproc''
         [''height_vectorproc'', ''node_index'', ''reach_index'', ''azimuth_index'', ''range_index'']
         None,
       WriteAnnotation ''/out/river-annotation_001_023_45N.rdf''
         [''pixc file = /in/pixc.nc'',
          ''gdem pixc file = /out/gdem/pixel_cloud_gdem001-023_45N.nc'',
          ''pixcvec file = /out/pixc/pixcvec_001_023_45N.nc'',
          ''pixcvec file from gdem = /out/gdem/pixcvec_001_023_45N.nc'']])"
proof -
  have p: "river_ann_file paths_45N = ''/out/river-annotation_001_023_45N.rdf''"
    "pixc_file paths_45N = ''/in/pixc.nc''"
    "output_pixcvec paths_45N = ''/out/pixc/pixcvec_001_023_45N.nc''"
    by (simp_all add: paths_45N_def)
  show ?thesis
    by (simp add: process_job_def seq_def demo_resolve_45N[folded paths_45N_def]
        demo_reference_45N demo_extraction_45N demo_shapefiles_45N p demo_annotation_45N
        return_io_def)
qed

lemma garbled_fields:
  "abspath garbled_env = abspath (demo_env 2)"
  "environ garbled_env = environ (demo_env 2)"
  "isfile garbled_env = isfile (demo_env 2)"
  "isdir garbled_env = isdir (demo_env 2)"
  "makedirs garbled_env = makedirs (demo_env 2)"
  "myRdfReader garbled_env = myRdfReader (demo_env 2)"
  "nc_Dataset garbled_env = nc_Dataset (demo_env 2)"
  "from_ncfile garbled_env = from_ncfile (demo_env 2)"
  "to_ncfile garbled_env = to_ncfile (demo_env 2)"
  "numpy garbled_env = numpy (demo_env 2)"
  by (simp_all add: garbled_env_def)

lemma garbled_stages:
  "resolve_paths garbled_env args f = resolve_paths (demo_env 2) args f"
  "reference_branch garbled_env args p = reference_branch (demo_env 2) args p"
  "extraction_command garbled_env args p = extraction_command (demo_env 2) args p"
  unfolding resolve_paths_def ensure_dir_def reference_branch_def outputs_exist_def
    make_pixc_from_gdem_def extraction_command_def garbled_fields
  by (rule refl)+

lemma demo_command_45N: "extraction_command (demo_env rc) demo_args paths_45N = Inr demo_cmd"
  by (simp add: extraction_command_def bindE_def demo_env_def demo_args_def paths_45N_def
      dict_get_def os_path_join_def demo_cmd_def Let_def)

lemma garbled_popen:
  "popen garbled_env cmd fs = ([''running''], Some UnicodeDecodeError, 2, fs)"
  by (simp add: garbled_env_def)

lemma demo_popen: "popen (demo_env rc) cmd fs = ([''running''], None, rc, fs)"
  by (simp add: demo_env_def)

lemma garbled_failure_45N:
  "process_job garbled_env demo_args ''/in/pixc_annotation_001_023_45N.rdf'' {} =
     (Inl UnicodeDecodeError,
      {''/out/gdem/pixel_cloud_gdem001-023_45N.nc''},
      [Print ''> Dealing with PixC annotation file /in/pixc_annotation_001_023_45N.rdf'',
       Print ''Cycle number = 001 - Orbit number = 023 - Tile ref = 45N'',
       Print [],
       Print ''/in/gdem.nc'',
       MakePixcFromGdem ''/in/gdem.nc'' ''/in/pixc.nc''
         ''/out/gdem/pixel_cloud_gdem001-023_45N.nc'' 2,
       Print (''> executing: '' @ demo_cmd), Print ''running''])"
proof -
  have c: "extraction_command garbled_env demo_args paths_45N = Inr demo_cmd"
    by (simp add: garbled_stages demo_command_45N)
  show ?thesis
    by (simp add: process_job_def seq_def garbled_stages
        demo_resolve_45N[folded paths_45N_def] demo_reference_45N
        extraction_result[OF c garbled_popen])
qed

section \<open>The claims about the orchestrator\<close>

text \<open>
  C1, as the code has it. When the loop reaches a job (the jobs before it having run to
  their end) whose paths resolve, the force flag is unset and both observed-branch
  output files exist, the job prints only lines and creates directories before the
  check, prints \<open>--> Output files already exist; EXIT\<close> and executes \<^verbatim>\<open>return\<close>:
  no synthesis, extraction, export or annotation happens for it, no exception is raised,
  and \<open>main\<close> ends there with the state the check saw, whatever jobs remain.
\<close>

theorem existing_outputs_end_run:
  assumes "main_loop env args done fs0 = (Inr Next, fs, ev0)"
    and "resolve_paths env args f fs = (Inr p, fs1, ev1)"
    and "\<not> force args"
    and "isfile env fs1 (output_riverobs p)" and "isfile env fs1 (output_pixcvec p)"
  shows "process_job env args f fs =
           (Inr Return, fs1, ev1 @ [Print ''--> Output files already exist; EXIT'']) \<and>
         list_all quiet ev1 \<and>
         main_loop env args (done @ f # rest) fs0 =
           (Inr Return, fs1, ev0 @ ev1 @ [Print ''--> Output files already exist; EXIT'']) \<and>
         (rdf_files env args fs0 = done @ f # rest \<longrightarrow>
            fst (main env args fs0) = Inr () \<and> fst (snd (main env args fs0)) = fs1)"
proof -
  have ex: "outputs_exist env args p fs1"
    using assms(3-5) by (simp add: outputs_exist_def)
  have rb: "reference_branch env args p fs1 =
              (Inr None, fs1, [Print ''--> Output files already exist; EXIT''])"
    using ex by (simp add: reference_branch_def io_defs)
  have pj: "process_job env args f fs =
           (Inr Return, fs1, ev1 @ [Print ''--> Output files already exist; EXIT''])"
    by (simp add: process_job_def seq_def assms(2) rb return_io_def)
  have q: "list_all quiet ev1"
    using every_eventD[OF resolve_paths_quiet assms(2)] .
  have ml: "main_loop env args (done @ f # rest) fs0 =
           (Inr Return, fs1, ev0 @ ev1 @ [Print ''--> Output files already exist; EXIT''])"
    using main_loop_stops[OF assms(1) pj] by simp
  have "rdf_files env args fs0 = done @ f # rest \<longrightarrow>
            fst (main env args fs0) = Inr () \<and> fst (snd (main env args fs0)) = fs1"
    using main_of_loop[of env args fs0] ml by auto
  with pj q ml show ?thesis by blast
qed

theorem existing_outputs_end_run_witness:
  "\<not> force demo_args \<and>
   isfile (demo_env 0) demo_outputs ''/out/pixc/rivertile_001_023_45N.nc'' \<and>
   isfile (demo_env 0) demo_outputs ''/out/pixc/pixcvec_001_023_45N.nc'' \<and>
   main_loop (demo_env 0) demo_args
       [''/in/pixc_annotation_001_023_45N.rdf'', ''/in/pixc_annotation_001_023_46N.rdf''] demo_outputs =
     (Inr Return, demo_outputs,
      [Print ''> Dealing with PixC annotation file /in/pixc_annotation_001_023_45N.rdf'',
       Print ''Cycle number = 001 - Orbit number = 023 - Tile ref = 45N'',
       Print [],
       Print ''--> Output files already exist; EXIT'']) \<and>
   fst (main (demo_env 0) demo_args demo_outputs) = Inr ()"
proof -
  have nil: "main_loop (demo_env 0) demo_args [] demo_outputs = (Inr Next, demo_outputs, [])"
    by simp
  have h: "\<not> force demo_args"
    "isfile (demo_env 0) demo_outputs (output_riverobs paths_45N)"
    "isfile (demo_env 0) demo_outputs (output_pixcvec paths_45N)"
    by (simp_all add: demo_args_def demo_env_def demo_outputs_def paths_45N_def)
  note t = existing_outputs_end_run[OF nil demo_resolve_45N[of 0 demo_outputs, folded paths_45N_def] h,
      of "[''/in/pixc_annotation_001_023_46N.rdf'']"]
  have f: "rdf_files (demo_env 0) demo_args demo_outputs = [] @ ''/in/pixc_annotation_001_023_45N.rdf'' # [''/in/pixc_annotation_001_023_46N.rdf'']"
    by (simp add: demo_rdf_files demo_jobs_def)
  from t f have "fst (main (demo_env 0) demo_args demo_outputs) = Inr ()" by blast
  moreover from t have "main_loop (demo_env 0) demo_args [''/in/pixc_annotation_001_023_45N.rdf'', ''/in/pixc_annotation_001_023_46N.rdf''] demo_outputs =
     (Inr Return, demo_outputs,
      [Print ''> Dealing with PixC annotation file /in/pixc_annotation_001_023_45N.rdf'',
       Print ''Cycle number = 001 - Orbit number = 023 - Tile ref = 45N'',
       Print [],
       Print ''--> Output files already exist; EXIT''])"
    by simp
  ultimately show ?thesis using h by (simp add: paths_45N_def)
qed

text \<open>
  C1, as the claim states it, fails: the sample input directory holds two descriptors,
  the outputs of the first exist and those of the second do not, the force flag is
  unset; the run ends normally after the message of the first job, and the second job
  is never dealt with.
\<close>

theorem existing_outputs_counterexample:
  "rdf_files (demo_env 0) demo_args demo_outputs =
     [''/in/pixc_annotation_001_023_45N.rdf'', ''/in/pixc_annotation_001_023_46N.rdf''] \<and>
   \<not> force demo_args \<and>
   isfile (demo_env 0) demo_outputs ''/out/pixc/rivertile_001_023_45N.nc'' \<and>
   isfile (demo_env 0) demo_outputs ''/out/pixc/pixcvec_001_023_45N.nc'' \<and>
   \<not> isfile (demo_env 0) demo_outputs ''/out/pixc/rivertile_001_023_46N.nc'' \<and>
   main (demo_env 0) demo_args demo_outputs =
     (Inr (), demo_outputs,
      [Print ''===== l2pixc_to_rivertile = BEGIN ====='', Print [],
       Print ''> 2 PixC annotation file(s) to deal with'', Print [],
       Print ''> Dealing with PixC annotation file /in/pixc_annotation_001_023_45N.rdf'',
       Print ''Cycle number = 001 - Orbit number = 023 - Tile ref = 45N'',
       Print [],
       Print ''--> Output files already exist; EXIT''])"
  by (simp add: demo_main_skip demo_rdf_files demo_jobs_def)
     (simp add: demo_env_def demo_args_def demo_outputs_def)

text \<open>
  C4, as the code has it. A job has resolved its paths and passed the existence check
  (and made its reference cloud, if any), the command line is built, and the child
  process exits with a non-zero status \<open>rc\<close>. When its output has been read to the end,
  the job raises \<open>CalledProcessError\<close> carrying \<open>rc\<close> and the command line; when reading
  the output raises (\<open>UnicodeDecodeError\<close> at bytes that do not decode as text), that
  exception leaves \<open>execute\<close> before the exit status is looked at and is the one raised.
  In both cases the events of the job end with the echoed lines (and the process exit,
  when it was looked at), no shapefile export and no annotation is among them, the loop
  ends with the exception, so no later job is started, and \<open>main\<close> ends with it.
\<close>

theorem process_failure_aborts:
  assumes "main_loop env args done fs0 = (Inr Next, fs, ev0)"
    and "resolve_paths env args f fs = (Inr p, fs1, ev1)"
    and "reference_branch env args p fs1 = (Inr (Some gv), fs2, ev2)"
    and "extraction_command env args p = Inr cmd"
    and "popen env cmd fs2 = (out_lines, read_error, rc, fs3)"
    and "rc \<noteq> 0"
  shows "let raised = (case read_error of None \<Rightarrow> CalledProcessError rc cmd | Some e \<Rightarrow> e);
             ev = ev1 @ ev2 @ Print (''> executing: '' @ cmd) # map Print out_lines @
                  (case read_error of None \<Rightarrow> [Execute cmd rc] | Some e \<Rightarrow> [])
         in process_job env args f fs = (Inl raised, fs3, ev) \<and>
            list_all (\<lambda>e. \<not> is_export e \<and> \<not> is_annotation e) ev \<and>
            main_loop env args (done @ f # rest) fs0 = (Inl raised, fs3, ev0 @ ev) \<and>
            (rdf_files env args fs0 = done @ f # rest \<longrightarrow>
               fst (main env args fs0) = Inl raised)"
proof -
  define raised where
    "raised = (case read_error of None \<Rightarrow> CalledProcessError rc cmd | Some e \<Rightarrow> e)"
  define ev where
    "ev = ev1 @ ev2 @ Print (''> executing: '' @ cmd) # map Print out_lines @
            (case read_error of None \<Rightarrow> [Execute cmd rc] | Some e \<Rightarrow> [])"
  obtain g v where gv: "gv = (g, v)" by (cases gv) auto
  have ex: "extraction env args p fs2 =
      (Inl raised, fs3,
       Print (''> executing: '' @ cmd) # map Print out_lines @
         (case read_error of None \<Rightarrow> [Execute cmd rc] | Some e \<Rightarrow> []))"
    using extraction_result[OF assms(4,5)] assms(6)
    by (simp add: raised_def split: option.splits)
  have pj: "process_job env args f fs = (Inl raised, fs3, ev)"
    by (simp add: process_job_def seq_def assms(2,3) gv ex ev_def)
  have q1: "list_all (\<lambda>e. \<not> is_export e \<and> \<not> is_annotation e) ev1"
    using every_eventD[OF resolve_paths_quiet assms(2)]
    by (auto simp: list_all_iff quiet_def)
  have q2: "list_all (\<lambda>e. \<not> is_export e \<and> \<not> is_annotation e) ev2"
    using every_eventD[OF reference_branch_events assms(3)]
    by (auto simp: list_all_iff)
  have q: "list_all (\<lambda>e. \<not> is_export e \<and> \<not> is_annotation e) ev"
    using q1 q2 by (auto simp: ev_def list_all_iff split: option.splits)
  have ml: "main_loop env args (done @ f # rest) fs0 = (Inl raised, fs3, ev0 @ ev)"
    using main_loop_stops[OF assms(1) pj] by simp
  have "rdf_files env args fs0 = done @ f # rest \<longrightarrow> fst (main env args fs0) = Inl raised"
    using main_of_loop[of env args fs0] ml by auto
  with pj q ml show ?thesis
    unfolding Let_def raised_def[symmetric] ev_def[symmetric] by blast
qed

theorem process_failure_aborts_witness:
  "(2::int) \<noteq> 0 \<and>
   popen (demo_env 2) demo_cmd {''/out/gdem/pixel_cloud_gdem001-023_45N.nc''} =
     ([''running''], None, 2, {''/out/gdem/pixel_cloud_gdem001-023_45N.nc''}) \<and>
   main_loop (demo_env 2) demo_args
       [''/in/pixc_annotation_001_023_45N.rdf'', ''/in/pixc_annotation_001_023_46N.rdf''] {} =
     (Inl (CalledProcessError 2 demo_cmd),
      {''/out/gdem/pixel_cloud_gdem001-023_45N.nc''},
      [Print ''> Dealing with PixC annotation file /in/pixc_annotation_001_023_45N.rdf'',
       Print ''Cycle number = 001 - Orbit number = 023 - Tile ref = 45N'',
       Print [],
       Print ''/in/gdem.nc'',
       MakePixcFromGdem ''/in/gdem.nc'' ''/in/pixc.nc''
         ''/out/gdem/pixel_cloud_gdem001-023_45N.nc'' 2,
       Print (''> executing: '' @ demo_cmd), Print ''running'', Execute demo_cmd 2]) \<and>
   fst (main (demo_env 2) demo_args {}) = Inl (CalledProcessError 2 demo_cmd)"
proof -
  have nil: "main_loop (demo_env 2) demo_args [] {} = (Inr Next, {}, [])"
    by simp
  have rc: "(2::int) \<noteq> 0" by simp
  have f: "rdf_files (demo_env 2) demo_args {} =
      [] @ ''/in/pixc_annotation_001_023_45N.rdf'' # [''/in/pixc_annotation_001_023_46N.rdf'']"
    by (simp add: demo_rdf_files demo_jobs_def)
  note t = process_failure_aborts[OF nil demo_resolve_45N[of 2 "{}", folded paths_45N_def]
      demo_reference_45N[of 2] demo_command_45N[of 2]
      demo_popen[of 2 demo_cmd "{''/out/gdem/pixel_cloud_gdem001-023_45N.nc''}"] rc,
      of "[''/in/pixc_annotation_001_023_46N.rdf'']"]
  from t f show ?thesis
    by (simp add: Let_def demo_popen)
qed

text \<open>
  C4, as the claim states it, fails: in the sample world whose child process prints
  bytes that do not decode and exits with status 2, the job raises
  \<open>UnicodeDecodeError\<close>, which names neither the command nor the status, and the exit
  status is never looked at.
\<close>

theorem process_failure_counterexample:
  "popen garbled_env demo_cmd {''/out/gdem/pixel_cloud_gdem001-023_45N.nc''} =
     ([''running''], Some UnicodeDecodeError, 2, {''/out/gdem/pixel_cloud_gdem001-023_45N.nc''}) \<and>
   process_job garbled_env demo_args ''/in/pixc_annotation_001_023_45N.rdf'' {} =
     (Inl UnicodeDecodeError,
      {''/out/gdem/pixel_cloud_gdem001-023_45N.nc''},
      [Print ''> Dealing with PixC annotation file /in/pixc_annotation_001_023_45N.rdf'',
       Print ''Cycle number = 001 - Orbit number = 023 - Tile ref = 45N'',
       Print [],
       Print ''/in/gdem.nc'',
       MakePixcFromGdem ''/in/gdem.nc'' ''/in/pixc.nc''
         ''/out/gdem/pixel_cloud_gdem001-023_45N.nc'' 2,
       Print (''> executing: '' @ demo_cmd), Print ''running'']) \<and>
   UnicodeDecodeError \<noteq> CalledProcessError 2 demo_cmd"
  by (simp add: garbled_popen garbled_failure_45N)



text \<open>
  C9. The annotation writer, when it succeeds, writes exactly the lines \<open>pixc file = \<dots>\<close>,
  \<open>gdem pixc file = \<dots>\<close> and \<open>pixcvec file = \<dots>\<close> in this order (the second one reads
  \<open>gdem pixc file = None\<close> when there is no reference cloud), followed by
  \<open>pixcvec file from gdem = \<dots>\<close> exactly when a reference-branch vector path is given.
  Every job that runs to its end finishes with this write, its only annotation: three
  lines under \<open>--nogdem\<close>, four otherwise. A job whose extraction process has exited
  with status 0 runs to its end, provided the shapefile exporter and the writing of the
  text file raise nothing.
\<close>

theorem annotation_lines:
  "(write_annotation_file env a pf gp pv pvg fs = (Inr u, fs1, ev) \<longrightarrow>
      ev = [WriteAnnotation a
              ([''pixc file = '' @ pf,
                ''gdem pixc file = '' @ (case gp of None \<Rightarrow> ''None'' | Some g \<Rightarrow> g),
                ''pixcvec file = '' @ pv] @
               (case pvg of None \<Rightarrow> [] | Some v \<Rightarrow> [''pixcvec file from gdem = '' @ v]))] \<and>
      write_text env a
        ([''pixc file = '' @ pf,
          ''gdem pixc file = '' @ (case gp of None \<Rightarrow> ''None'' | Some g \<Rightarrow> g),
          ''pixcvec file = '' @ pv] @
         (case pvg of None \<Rightarrow> [] | Some v \<Rightarrow> [''pixcvec file from gdem = '' @ v])) fs = Inr fs1) \<and>
   (process_job env args f fs = (Inr Next, fs2, evs) \<longrightarrow>
      (\<exists>p pre. fst (resolve_paths env args f fs) = Inr p \<and>
         evs = pre @ [WriteAnnotation (river_ann_file p)
                  ([''pixc file = '' @ pixc_file p,
                    ''gdem pixc file = '' @
                       (if nogdem args then ''None'' else gdem_pixc_path args p),
                    ''pixcvec file = '' @ output_pixcvec p] @
                   (if nogdem args then []
                    else [''pixcvec file from gdem = '' @ output_pixcvec_gdem args p]))] \<and>
         list_all (\<lambda>e. \<not> is_annotation e) pre)) \<and>
   (process_job env args f fs = (r, fs3, evs3) \<and> Execute cmd 0 \<in> set evs3 \<and>
    (\<forall>i out la lo vs g s. \<exists>s'. pixc_to_shp env i out la lo vs g s = Inr s') \<and>
    (\<forall>a ls s. \<exists>s'. write_text env a ls s = Inr s') \<longrightarrow>
      r = Inr Next)"
proof (intro conjI impI)
  assume "write_annotation_file env a pf gp pv pvg fs = (Inr u, fs1, ev)"
  from write_annotation_file_result[OF this]
  show "ev = [WriteAnnotation a
              ([''pixc file = '' @ pf,
                ''gdem pixc file = '' @ (case gp of None \<Rightarrow> ''None'' | Some g \<Rightarrow> g),
                ''pixcvec file = '' @ pv] @
               (case pvg of None \<Rightarrow> [] | Some v \<Rightarrow> [''pixcvec file from gdem = '' @ v]))]"
    and "write_text env a
        ([''pixc file = '' @ pf,
          ''gdem pixc file = '' @ (case gp of None \<Rightarrow> ''None'' | Some g \<Rightarrow> g),
          ''pixcvec file = '' @ pv] @
         (case pvg of None \<Rightarrow> [] | Some v \<Rightarrow> [''pixcvec file from gdem = '' @ v])) fs = Inr fs1"
    by simp_all
next
  assume "process_job env args f fs = (Inr Next, fs2, evs)"
  from process_job_Next[OF this]
  show "\<exists>p pre. fst (resolve_paths env args f fs) = Inr p \<and>
         evs = pre @ [WriteAnnotation (river_ann_file p)
                  ([''pixc file = '' @ pixc_file p,
                    ''gdem pixc file = '' @
                       (if nogdem args then ''None'' else gdem_pixc_path args p),
                    ''pixcvec file = '' @ output_pixcvec p] @
                   (if nogdem args then []
                    else [''pixcvec file from gdem = '' @ output_pixcvec_gdem args p]))] \<and>
         list_all (\<lambda>e. \<not> is_annotation e) pre" .
next
  assume "process_job env args f fs = (r, fs3, evs3) \<and> Execute cmd 0 \<in> set evs3 \<and>
    (\<forall>i out la lo vs g s. \<exists>s'. pixc_to_shp env i out la lo vs g s = Inr s') \<and>
    (\<forall>a ls s. \<exists>s'. write_text env a ls s = Inr s')"
  then show "r = Inr Next"
    using process_job_after_extraction[of env args f fs r fs3 evs3 cmd] by blast
qed

theorem annotation_lines_witness:
  "Execute demo_cmd 0 \<in> set (snd (snd (process_job (demo_env 0) demo_args
       ''/in/pixc_annotation_001_023_45N.rdf'' {}))) \<and>
   (\<forall>i out la lo vs g s. \<exists>s'. pixc_to_shp (demo_env 0) i out la lo vs g s = Inr s') \<and>
   (\<forall>a ls s. \<exists>s'. write_text (demo_env 0) a ls s = Inr s') \<and>
   write_annotation_file (demo_env 0) ''/out/river-annotation_001_023_45N.rdf'' ''/in/pixc.nc''
       None ''/out/pixc/pixcvec_001_023_45N.nc'' None {} =
     (Inr (), {''/out/river-annotation_001_023_45N.rdf''},
      [WriteAnnotation ''/out/river-annotation_001_023_45N.rdf''
         [''pixc file = /in/pixc.nc'', ''gdem pixc file = None'',
          ''pixcvec file = /out/pixc/pixcvec_001_023_45N.nc'']]) \<and>
   (\<exists>fs pre. process_job (demo_env 0) demo_args ''/in/pixc_annotation_001_023_45N.rdf'' {} =
      (Inr Next, fs,
       pre @ [WriteAnnotation ''/out/river-annotation_001_023_45N.rdf''
         [''pixc file = /in/pixc.nc'',
          ''gdem pixc file = /out/gdem/pixel_cloud_gdem001-023_45N.nc'',
          ''pixcvec file = /out/pixc/pixcvec_001_023_45N.nc'',
          ''pixcvec file from gdem = /out/gdem/pixcvec_001_023_45N.nc'']]) \<and>
      list_all (\<lambda>e. \<not> is_annotation e) pre)"
proof -
  have w: "write_annotation_file (demo_env 0) ''/out/river-annotation_001_023_45N.rdf''
       ''/in/pixc.nc'' None ''/out/pixc/pixcvec_001_023_45N.nc'' None {} =
     (Inr (), {''/out/river-annotation_001_023_45N.rdf''},
      [WriteAnnotation ''/out/river-annotation_001_023_45N.rdf''
         [''pixc file = /in/pixc.nc'', ''gdem pixc file = None'',
          ''pixcvec file = /out/pixc/pixcvec_001_023_45N.nc'']])"
    by (simp add: write_annotation_file_def io_defs fmt_s_def demo_env_def Let_def)
  have r: "fst (resolve_paths (demo_env 0) demo_args ''/in/pixc_annotation_001_023_45N.rdf'' {}) = Inr paths_45N"
    by (simp add: demo_resolve_45N[folded paths_45N_def])
  have v: "river_ann_file paths_45N = ''/out/river-annotation_001_023_45N.rdf''"
    "pixc_file paths_45N = ''/in/pixc.nc''"
    "output_pixcvec paths_45N = ''/out/pixc/pixcvec_001_023_45N.nc''"
    "gdem_pixc_path demo_args paths_45N = ''/out/gdem/pixel_cloud_gdem001-023_45N.nc''"
    "output_pixcvec_gdem demo_args paths_45N = ''/out/gdem/pixcvec_001_023_45N.nc''"
    "\<not> nogdem demo_args"
    by (simp_all add: gdem_pixc_path_def output_pixcvec_gdem_def river_dir_gdem_def demo_args_def
        paths_45N_def os_path_join_def tile_name_def)
  note t = annotation_lines[THEN conjunct2, THEN conjunct1, THEN mp, OF demo_success_45N]
  then obtain p pre where
    p: "fst (resolve_paths (demo_env 0) demo_args ''/in/pixc_annotation_001_023_45N.rdf'' {}) = Inr p"
    and n: "list_all (\<lambda>e. \<not> is_annotation e) pre"
    and j: "process_job (demo_env 0) demo_args ''/in/pixc_annotation_001_023_45N.rdf'' {} =
       (Inr Next,
        {''/out/river-annotation_001_023_45N.rdf'', ''/out/pixc/pixcvec_001_023_45N.shp'',
         ''/out/pixc/rivertile_001_023_45N_reach.shp'', ''/out/pixc/rivertile_001_023_45N_node.shp'',
         ''/out/gdem/pixel_cloud_gdem001-023_45N.nc''},
        pre @ [WriteAnnotation (river_ann_file p)
                  ([''pixc file = '' @ pixc_file p,
                    ''gdem pixc file = '' @
                       (if nogdem demo_args then ''None'' else gdem_pixc_path demo_args p),
                    ''pixcvec file = '' @ output_pixcvec p] @
                   (if nogdem demo_args then []
                    else [''pixcvec file from gdem = '' @ output_pixcvec_gdem demo_args p]))])"
    by (elim exE conjE) (simp only: demo_success_45N)
  from p r have pp: "p = paths_45N" by simp
  have "process_job (demo_env 0) demo_args ''/in/pixc_annotation_001_023_45N.rdf'' {} =
       (Inr Next,
        {''/out/river-annotation_001_023_45N.rdf'', ''/out/pixc/pixcvec_001_023_45N.shp'',
         ''/out/pixc/rivertile_001_023_45N_reach.shp'', ''/out/pixc/rivertile_001_023_45N_node.shp'',
         ''/out/gdem/pixel_cloud_gdem001-023_45N.nc''},
        pre @ [WriteAnnotation ''/out/river-annotation_001_023_45N.rdf''
         [''pixc file = /in/pixc.nc'',
          ''gdem pixc file = /out/gdem/pixel_cloud_gdem001-023_45N.nc'',
          ''pixcvec file = /out/pixc/pixcvec_001_023_45N.nc'',
          ''pixcvec file from gdem = /out/gdem/pixcvec_001_023_45N.nc'']])"
    unfolding j pp by (simp add: v)
  moreover have "Execute demo_cmd 0 \<in> set (snd (snd (process_job (demo_env 0) demo_args
       ''/in/pixc_annotation_001_023_45N.rdf'' {})))"
    by (simp add: demo_success_45N)
  moreover have "\<forall>i out la lo vs g s. \<exists>s'. pixc_to_shp (demo_env 0) i out la lo vs g s = Inr s'"
    "\<forall>a ls s. \<exists>s'. write_text (demo_env 0) a ls s = Inr s'"
    by (simp_all add: demo_env_def)
  ultimately show ?thesis using n w by blast
qed

text \<open>
  C10. Every call of the converter that a run of \<open>main\<close> makes, whatever the command
  line, the descriptors and the files, has the subsample factor 2; and a job of the
  reference branch that passes the existence check and has the key \<open>true GDEM file\<close>
  makes this call.
\<close>

theorem subsample_factor_fixed:
  "(\<forall>g pf out k. MakePixcFromGdem g pf out k \<in> set (snd (snd (main env args fs0))) \<longrightarrow> k = 2) \<and>
   (\<not> nogdem args \<and> resolve_paths env args f fs = (Inr p, fs1, ev1) \<and>
    \<not> outputs_exist env args p fs1 \<and> ann_cfg p ''true GDEM file'' = Some g0 \<longrightarrow>
      MakePixcFromGdem g0 (pixc_file p) (gdem_pixc_path args p) 2
        \<in> set (snd (snd (process_job env args f fs))))"
proof (intro conjI allI impI)
  fix g pf out k
  assume "MakePixcFromGdem g pf out k \<in> set (snd (snd (main env args fs0)))"
  moreover have "list_all factor_two (snd (snd (main env args fs0)))"
    using main_factor[of env args] by (simp add: every_event_def)
  ultimately have "factor_two (MakePixcFromGdem g pf out k)" by (simp add: list_all_iff)
  then show "k = 2" by (simp add: factor_two_def)
next
  assume a: "\<not> nogdem args \<and> resolve_paths env args f fs = (Inr p, fs1, ev1) \<and>
    \<not> outputs_exist env args p fs1 \<and> ann_cfg p ''true GDEM file'' = Some g0"
  obtain r2 fs2 ev2 where rb: "reference_branch env args p fs1 = (r2, fs2, ev2)"
    by (cases "reference_branch env args p fs1") auto
  have "MakePixcFromGdem g0 (pixc_file p) (gdem_pixc_path args p) 2 \<in> set ev2"
    using rb a unfolding reference_branch_def make_pixc_from_gdem_def io_defs dict_get_def
    by (auto split: sum.splits prod.splits)
  then show "MakePixcFromGdem g0 (pixc_file p) (gdem_pixc_path args p) 2
        \<in> set (snd (snd (process_job env args f fs)))"
    using a rb unfolding process_job_def
    by (auto simp: seq_def split: sum.splits prod.splits)
qed

theorem subsample_factor_fixed_witness:
  "\<not> nogdem demo_args \<and>
   \<not> outputs_exist (demo_env 0) demo_args paths_45N {} \<and>
   MakePixcFromGdem ''/in/gdem.nc'' ''/in/pixc.nc'' ''/out/gdem/pixel_cloud_gdem001-023_45N.nc'' 2
     \<in> set (snd (snd (process_job (demo_env 0) demo_args ''/in/pixc_annotation_001_023_45N.rdf'' {})))"
proof -
  have h: "\<not> nogdem demo_args"
    "\<not> outputs_exist (demo_env 0) demo_args paths_45N {}"
    "ann_cfg paths_45N ''true GDEM file'' = Some ''/in/gdem.nc''"
    by (simp_all add: demo_args_def outputs_exist_def demo_env_def paths_45N_def)
  have v: "pixc_file paths_45N = ''/in/pixc.nc''"
    "gdem_pixc_path demo_args paths_45N = ''/out/gdem/pixel_cloud_gdem001-023_45N.nc''"
    by (simp_all add: gdem_pixc_path_def river_dir_gdem_def demo_args_def
        paths_45N_def os_path_join_def)
  from subsample_factor_fixed[of "demo_env 0" demo_args "{}" "''/in/pixc_annotation_001_023_45N.rdf''" "{}" paths_45N "{}" _
      "''/in/gdem.nc''"] h demo_resolve_45N[of 0 "{}", folded paths_45N_def]
  have "MakePixcFromGdem ''/in/gdem.nc'' (pixc_file paths_45N) (gdem_pixc_path demo_args paths_45N) 2
     \<in> set (snd (snd (process_job (demo_env 0) demo_args ''/in/pixc_annotation_001_023_45N.rdf'' {})))"
    by blast
  with h show ?thesis by (simp only: v simp_thms)
qed

end
